theory Spec2Isabelle
  imports Complex_Main
begin

section \<open>Python values\<close>

text \<open>
  The helpers of the recommendation backend pass untyped JSON documents around (the reply of
  the language model, Cosmos DB items, user records). They are modelled by one datatype of
  JSON values. A Python float is a rational, or one of the three IEEE specials; comparisons
  of floats are exact, and the roundings of float arithmetic are left out (every finite
  double is a rational). A Python dict is an association list, read with \<open>map_of\<close>;
  a Python string is a \<open>string\<close>, taken to be ASCII text.
\<close>

datatype pyfloat = Fin rat | PosInf | NegInf | NaN

datatype json =
    JNull
  | JBool bool
  | JInt int
  | JFloat pyfloat
  | JStr string
  | JArr "json list"
  | JObj "(string \<times> json) list"

datatype pyerror =
    AttributeError
  | TypeError
  | ValueError
  | KeyError
  | OverflowError
  | JSONDecodeError
  | ExternalError string

text \<open>Python's \<open><\<close> on floats: every comparison with NaN is false.\<close>

fun flt :: "pyfloat \<Rightarrow> pyfloat \<Rightarrow> bool" where
  "flt NaN _ = False"
| "flt _ NaN = False"
| "flt (Fin a) (Fin b) = (a < b)"
| "flt (Fin _) PosInf = True"
| "flt (Fin _) NegInf = False"
| "flt NegInf NegInf = False"
| "flt NegInf _ = True"
| "flt PosInf _ = False"

text \<open>
  The builtins \<open>min(a, b)\<close> and \<open>max(a, b)\<close> keep their first argument unless the
  second one is strictly smaller (strictly greater).
\<close>

definition py_min :: "pyfloat \<Rightarrow> pyfloat \<Rightarrow> pyfloat" where
  "py_min a b = (if flt b a then b else a)"

definition py_max :: "pyfloat \<Rightarrow> pyfloat \<Rightarrow> pyfloat" where
  "py_max a b = (if flt a b then b else a)"

text \<open>\<open>round(x, 4)\<close>: to the nearest multiple of \<open>1/10000\<close>, ties to the even one.\<close>

definition round_half_even :: "rat \<Rightarrow> int" where
  "round_half_even x =
     (let f = \<lfloor>x\<rfloor>; d = x - of_int f
      in if d < 1 / 2 then f else if 1 / 2 < d then f + 1 else if even f then f else f + 1)"

fun py_round4 :: "pyfloat \<Rightarrow> pyfloat" where
  "py_round4 (Fin x) = Fin (of_int (round_half_even (x * 10000)) / 10000)"
| "py_round4 PosInf = PosInf"
| "py_round4 NegInf = NegInf"
| "py_round4 NaN = NaN"

text \<open>
  \<open>float(v)\<close>. A bool or an int converts (an int too large for a double raises
  OverflowError), a float is itself, a string is parsed by Python's float parser, which is
  the parameter \<open>sf\<close> (\<open>None\<close> where it raises ValueError); \<open>None\<close>, a list and
  a dict raise TypeError.
\<close>

fun py_float :: "(string \<Rightarrow> pyfloat option) \<Rightarrow> json \<Rightarrow> pyerror + pyfloat" where
  "py_float sf (JBool b) = Inr (Fin (if b then 1 else 0))"
| "py_float sf (JInt i) =
     (if \<bar>i\<bar> < 2 ^ 1024 - 2 ^ 970 then Inr (Fin (of_int i)) else Inl OverflowError)"
| "py_float sf (JFloat f) = Inr f"
| "py_float sf (JStr s) = (case sf s of None \<Rightarrow> Inl ValueError | Some f \<Rightarrow> Inr f)"
| "py_float sf JNull = Inl TypeError"
| "py_float sf (JArr _) = Inl TypeError"
| "py_float sf (JObj _) = Inl TypeError"

text \<open>\<open>bool(v)\<close>, the truth value of a JSON value.\<close>

fun py_bool :: "json \<Rightarrow> bool" where
  "py_bool JNull = False"
| "py_bool (JBool b) = b"
| "py_bool (JInt i) = (i \<noteq> 0)"
| "py_bool (JFloat f) = (f \<noteq> Fin 0)"
| "py_bool (JStr s) = (s \<noteq> [])"
| "py_bool (JArr xs) = (xs \<noteq> [])"
| "py_bool (JObj kv) = (kv \<noteq> [])"

text \<open>\<open>d.get(k)\<close> and \<open>d.get(k, default)\<close> on a dict.\<close>

definition dict_get :: "(string \<times> json) list \<Rightarrow> string \<Rightarrow> json option" where
  "dict_get kv k = map_of kv k"

definition dict_get_default :: "(string \<times> json) list \<Rightarrow> string \<Rightarrow> json \<Rightarrow> json" where
  "dict_get_default kv k d = (case map_of kv k of None \<Rightarrow> d | Some v \<Rightarrow> v)"

text \<open>
  \<open>for t in v\<close>: a list gives its elements, a string its characters, a dict its keys;
  anything else is not iterable (TypeError).
\<close>

fun py_iter :: "json \<Rightarrow> pyerror + json list" where
  "py_iter (JArr xs) = Inr xs"
| "py_iter (JStr s) = Inr (map (\<lambda>c. JStr [c]) s)"
| "py_iter (JObj kv) = Inr (map (\<lambda>p. JStr (fst p)) kv)"
| "py_iter _ = Inl TypeError"

text \<open>Slices \<open>xs[:n]\<close> with an integer bound: a negative bound counts from the end.\<close>

definition py_take :: "int \<Rightarrow> 'a list \<Rightarrow> 'a list" where
  "py_take n xs = (if 0 \<le> n then take (nat n) xs else take (nat (int (length xs) + n)) xs)"

subsection \<open>Strings\<close>

definition is_space :: "char \<Rightarrow> bool" where
  "is_space c = (c \<in> set [CHR 0x09, CHR 0x0A, CHR 0x0B, CHR 0x0C, CHR 0x0D,
                           CHR 0x1C, CHR 0x1D, CHR 0x1E, CHR 0x1F, CHR 0x20])"

definition py_strip :: "string \<Rightarrow> string" where
  "py_strip s = rev (dropWhile is_space (rev (dropWhile is_space s)))"

definition startswith :: "string \<Rightarrow> string \<Rightarrow> bool" where
  "startswith s p = (take (length p) s = p)"

definition endswith :: "string \<Rightarrow> string \<Rightarrow> bool" where
  "endswith s p = (length p \<le> length s \<and> drop (length s - length p) s = p)"

definition backtick :: char where
  "backtick = CHR 0x60"

definition fence :: string where
  "fence = [backtick, backtick, backtick]"

section \<open>The LLM-output parser (azure\_openai\_helper.py)\<close>

definition empty_result :: json where
  "empty_result = JObj [(''tags'', JArr []), (''articles'', JArr [])]"

text \<open>
  The first lines of \<open>_parse_llm_only_output\<close>: strip, drop a leading
  code-fence marker with the word json (7 characters), drop a trailing code-fence marker.
\<close>

definition strip_fences :: "string \<Rightarrow> string" where
  "strip_fences response =
     (let text1 = py_strip response;
          text2 = (if startswith text1 (fence @ ''json'') then drop 7 text1 else text1)
      in if endswith text2 fence then take (length text2 - 3) text2 else text2)"

text \<open>
  One round of the loop over \<open>data.get("tags", [])\<close>: the entries appended for the
  element \<open>t\<close> (none or one).
\<close>

fun parse_tag_entry :: "(string \<Rightarrow> pyfloat option) \<Rightarrow> json \<Rightarrow> json list" where
  "parse_tag_entry sf (JObj t) =
     (case (dict_get t ''tag'', dict_get t ''score'') of
        (Some tg, Some sc) \<Rightarrow>
          (case py_float sf sc of
             Inl _ \<Rightarrow> []
           | Inr score \<Rightarrow>
               [JObj [(''tag'', tg),
                      (''score'', JFloat (py_max (Fin 1) (py_min (Fin 5) score))),
                      (''wildcard'', JBool (py_bool (dict_get_default t ''wildcard'' (JBool False))))]])
      | _ \<Rightarrow> [])"
| "parse_tag_entry sf _ = []"

fun parse_article_entry :: "(string \<Rightarrow> pyfloat option) \<Rightarrow> json \<Rightarrow> json list" where
  "parse_article_entry sf (JObj a) =
     (case (dict_get a ''id'', dict_get a ''score'') of
        (Some i, Some sc) \<Rightarrow>
          (case py_float sf sc of
             Inl _ \<Rightarrow> []
           | Inr score \<Rightarrow>
               [JObj [(''id'', i),
                      (''score'', JFloat (py_round4 (py_max (Fin 0) (py_min (Fin 5) score)))),
                      (''wildcard'', JBool (py_bool (dict_get_default a ''wildcard'' (JBool False))))]])
      | _ \<Rightarrow> [])"
| "parse_article_entry sf _ = []"

text \<open>
  The body of the \<open>try\<close> block. \<open>loads\<close> is \<open>json.loads\<close> (\<open>None\<close> where it
  raises); \<open>data.get\<close> raises AttributeError unless \<open>data\<close> is a dict.
\<close>

definition parse_body ::
  "(string \<Rightarrow> json option) \<Rightarrow> (string \<Rightarrow> pyfloat option) \<Rightarrow> string \<Rightarrow> pyerror + json" where
  "parse_body loads sf response =
     (case loads (strip_fences response) of
        None \<Rightarrow> Inl JSONDecodeError
      | Some (JObj data) \<Rightarrow>
          (case py_iter (dict_get_default data ''tags'' (JArr [])) of
             Inl e \<Rightarrow> Inl e
           | Inr ts \<Rightarrow>
               (case py_iter (dict_get_default data ''articles'' (JArr [])) of
                  Inl e \<Rightarrow> Inl e
                | Inr as \<Rightarrow>
                    Inr (JObj [(''tags'', JArr (concat (map (parse_tag_entry sf) ts))),
                               (''articles'', JArr (concat (map (parse_article_entry sf) as)))])))
      | Some _ \<Rightarrow> Inl AttributeError)"

text \<open>\<open>_parse_llm_only_output\<close>: every exception of the body gives the empty result.\<close>

definition parse_llm_only_output ::
  "(string \<Rightarrow> json option) \<Rightarrow> (string \<Rightarrow> pyfloat option) \<Rightarrow> string \<Rightarrow> json" where
  "parse_llm_only_output loads sf response =
     (case parse_body loads sf response of Inl _ \<Rightarrow> empty_result | Inr r \<Rightarrow> r)"

subsection \<open>A sample decoder and float parser for the concrete instances\<close>

definition demo_loads :: "string \<Rightarrow> json option" where
  "demo_loads s =
     (if s = ''DOC'' then
        Some (JObj [(''tags'', JArr [JObj [(''tag'', JStr ''ai''), (''score'', JInt 9)],
                                     JObj [(''tag'', JStr ''ml''), (''score'', JStr ''high'')],
                                     JObj [(''score'', JInt 3)]]),
                    (''articles'', JArr [JObj [(''id'', JStr ''a1''), (''score'', JFloat (Fin (123456 / 100000)))],
                                         JObj [(''id'', JStr ''a2''), (''score'', JFloat NaN), (''wildcard'', JBool True)]])])
      else None)"

definition demo_sf :: "string \<Rightarrow> pyfloat option" where
  "demo_sf s = (if s = ''2.5'' then Some (Fin (5 / 2)) else None)"

section \<open>Processing the LLM output (recommendation\_manager.py)\<close>

text \<open>Exceptions end a block: the next step runs on the value of a step that returned.\<close>

definition try_bind :: "pyerror + 'a \<Rightarrow> ('a \<Rightarrow> pyerror + 'b) \<Rightarrow> pyerror + 'b" where
  "try_bind x f = (case x of Inl e \<Rightarrow> Inl e | Inr v \<Rightarrow> f v)"

text \<open>A loop or comprehension whose body may raise: the first exception ends it.\<close>

fun map_err :: "('a \<Rightarrow> pyerror + 'b) \<Rightarrow> 'a list \<Rightarrow> pyerror + 'b list" where
  "map_err f [] = Inr []"
| "map_err f (x # xs) =
     (case f x of
        Inl e \<Rightarrow> Inl e
      | Inr y \<Rightarrow> (case map_err f xs of Inl e \<Rightarrow> Inl e | Inr ys \<Rightarrow> Inr (y # ys)))"

text \<open>
  \<open>v[:n]\<close> on a JSON value: lists and strings are sliced, anything else raises (TypeError
  for \<open>None\<close>, numbers and bools; an exception for a dict as well).
\<close>

fun py_slice_to :: "nat \<Rightarrow> json \<Rightarrow> pyerror + json" where
  "py_slice_to n (JArr xs) = Inr (JArr (take n xs))"
| "py_slice_to n (JStr s) = Inr (JStr (take n s))"
| "py_slice_to n _ = Inl TypeError"

text \<open>\<open>v[k]\<close> with a string key: only a dict that has the key returns.\<close>

fun py_getitem :: "json \<Rightarrow> string \<Rightarrow> pyerror + json" where
  "py_getitem (JObj d) k = (case dict_get d k of None \<Rightarrow> Inl KeyError | Some v \<Rightarrow> Inr v)"
| "py_getitem _ k = Inl TypeError"

text \<open>\<open>v.get(k, default)\<close>: AttributeError unless \<open>v\<close> is a dict.\<close>

fun py_get :: "json \<Rightarrow> string \<Rightarrow> json \<Rightarrow> pyerror + json" where
  "py_get (JObj d) k dflt = Inr (dict_get_default d k dflt)"
| "py_get _ k dflt = Inl AttributeError"

text \<open>Lists and dicts cannot be dict keys.\<close>

fun hashable :: "json \<Rightarrow> bool" where
  "hashable (JArr _) = False"
| "hashable (JObj _) = False"
| "hashable _ = True"

text \<open>
  The comprehension \<open>{c.get("id"): c.get("abstract", "") for c in candidates}\<close>: a later
  candidate with the same id overwrites an earlier one. The dict is only ever read with a
  string key, and a string equals no key of another type, so keys are compared as JSON
  values.
\<close>

fun abstract_dict :: "(json \<rightharpoonup> json) \<Rightarrow> json list \<Rightarrow> pyerror + (json \<rightharpoonup> json)" where
  "abstract_dict m [] = Inr m"
| "abstract_dict m (c # cs) =
     (case c of
        JObj d \<Rightarrow>
          (let k = dict_get_default d ''id'' JNull
           in if hashable k
              then abstract_dict (m(k \<mapsto> dict_get_default d ''abstract'' (JStr ''''))) cs
              else Inl TypeError)
      | _ \<Rightarrow> Inl AttributeError)"

definition candidate_abstract_by_id :: "json list \<Rightarrow> pyerror + (json \<rightharpoonup> json)" where
  "candidate_abstract_by_id candidates = abstract_dict Map.empty candidates"

definition trending_abstract :: string where
  "trending_abstract = ''Real trending article based on current global events and user interests''"

definition is_trending_id :: "string \<Rightarrow> bool" where
  "is_trending_id art_id =
     (startswith art_id ''wildcard-'' \<or> startswith art_id ''trending-'' \<or>
      startswith art_id ''newsapi-'' \<or> startswith art_id ''reddit-'')"

text \<open>One element of the comprehension that builds \<open>tag_recommendations\<close>.\<close>

definition tag_recommendation :: "json \<Rightarrow> pyerror + json" where
  "tag_recommendation t =
     try_bind (py_getitem t ''tag'') (\<lambda>tg.
     try_bind (py_getitem t ''score'') (\<lambda>sc.
     Inr (JObj [(''tag'', tg), (''score'', sc)])))"

text \<open>
  One round of the loop over \<open>all_articles\<close>: the recommendations appended for \<open>a\<close>
  (none after \<open>continue\<close>). \<open>art_id.startswith\<close> raises AttributeError when the id is
  a true value that is no string.
\<close>

definition article_recommendation :: "(json \<rightharpoonup> json) \<Rightarrow> json \<Rightarrow> pyerror + json list" where
  "article_recommendation by_id a =
     try_bind (py_get a ''id'' JNull) (\<lambda>art_id.
       if \<not> py_bool art_id then Inr []
       else (case art_id of
               JStr s \<Rightarrow>
                 try_bind (py_get a ''score'' (JInt 0)) (\<lambda>sc.
                   Inr [JObj [(''id'', JStr s),
                              (''score'', sc),
                              (''abstract'',
                                 if is_trending_id s then JStr trending_abstract
                                 else (case by_id (JStr s) of None \<Rightarrow> JStr '''' | Some v \<Rightarrow> v))]])
             | _ \<Rightarrow> Inl AttributeError))"

text \<open>
  The log lines after the loop: \<open>[a for a in all_articles if a.get("wildcard", False)]\<close>
  and then \<open>a['id']\<close> of each of those, which raises KeyError when the key is missing.
\<close>

definition wildcard_article_id :: "json \<Rightarrow> pyerror + json list" where
  "wildcard_article_id a =
     try_bind (py_get a ''wildcard'' (JBool False)) (\<lambda>w.
       if py_bool w then try_bind (py_getitem a ''id'') (\<lambda>i. Inr [i]) else Inr [])"

text \<open>
  The \<open>try\<close> block of \<open>_process_llm_output\<close>. The two log lines about the tags read
  \<open>t.get("wildcard", False)\<close> and \<open>t['tag']\<close> of elements whose \<open>t["tag"]\<close> has
  already returned, so they raise nothing and are left out.
\<close>

definition process_body :: "json \<Rightarrow> json list \<Rightarrow> pyerror + json" where
  "process_body llm_out candidates =
     try_bind (py_get llm_out ''tags'' (JArr [])) (\<lambda>tags_field.
     try_bind (py_slice_to 20 tags_field) (\<lambda>tags_slice.
     try_bind (py_iter tags_slice) (\<lambda>all_tags.
     try_bind (map_err tag_recommendation all_tags) (\<lambda>tag_recommendations.
     try_bind (candidate_abstract_by_id candidates) (\<lambda>by_id.
     try_bind (py_get llm_out ''articles'' (JArr [])) (\<lambda>articles_field.
     try_bind (py_slice_to 20 articles_field) (\<lambda>articles_slice.
     try_bind (py_iter articles_slice) (\<lambda>all_articles.
     try_bind (map_err (article_recommendation by_id) all_articles) (\<lambda>article_recommendations.
     try_bind (map_err wildcard_article_id all_articles) (\<lambda>wildcard_ids.
     Inr (JObj [(''tags'', JArr tag_recommendations),
                (''articles'', JArr (concat article_recommendations))])))))))))))"

text \<open>\<open>_process_llm_output\<close>: any exception gives the empty result.\<close>

definition process_llm_output :: "json \<Rightarrow> json list \<Rightarrow> json" where
  "process_llm_output llm_out candidates =
     (case process_body llm_out candidates of Inl _ \<Rightarrow> empty_result | Inr r \<Rightarrow> r)"

text \<open>
  Reading results: \<open>get_field_or k dflt v\<close> is \<open>v.get(k, dflt)\<close> of a dict and
  \<open>get_field k v\<close> is \<open>v.get(k)\<close> (both \<open>None\<close> for a value that is no dict);
  \<open>article_ids\<close> are the ids of a list of article dicts, \<open>recommended_tags\<close> and
  \<open>recommended_articles\<close> the two lists of a result dict.
\<close>

definition get_field_or :: "string \<Rightarrow> json \<Rightarrow> json \<Rightarrow> json" where
  "get_field_or k dflt v = (case py_get v k dflt of Inl _ \<Rightarrow> JNull | Inr x \<Rightarrow> x)"

definition get_field :: "string \<Rightarrow> json \<Rightarrow> json" where
  "get_field k v = get_field_or k JNull v"

definition article_ids :: "json list \<Rightarrow> json set" where
  "article_ids xs = set (map (get_field ''id'') xs)"

definition recommended_tags :: "json \<Rightarrow> json list" where
  "recommended_tags r = (case get_field ''tags'' r of JArr xs \<Rightarrow> xs | _ \<Rightarrow> [])"

definition recommended_articles :: "json \<Rightarrow> json list" where
  "recommended_articles r = (case get_field ''articles'' r of JArr xs \<Rightarrow> xs | _ \<Rightarrow> [])"

subsection \<open>A sample run\<close>

text \<open>
  A parsed reply with one tag and three articles: one from the candidate pool, one the
  model made up, one with the id of a trending article; the candidate pool and the trending
  articles of the same run; and a reply with 21 tags and 21 articles.
\<close>

definition demo_llm_out :: json where
  "demo_llm_out =
     JObj [(''tags'', JArr [JObj [(''tag'', JStr ''ai''), (''score'', JFloat (Fin 5)), (''wildcard'', JBool False)]]),
           (''articles'',
              JArr [JObj [(''id'', JStr ''c1''), (''score'', JFloat (Fin 4)), (''wildcard'', JBool False)],
                    JObj [(''id'', JStr ''ghost-42''), (''score'', JFloat (Fin 3)), (''wildcard'', JBool False)],
                    JObj [(''id'', JStr ''reddit-ai-0''), (''score'', JFloat (Fin 2)), (''wildcard'', JBool True)]])]"

definition demo_candidates :: "json list" where
  "demo_candidates =
     [JObj [(''id'', JStr ''c1''), (''title'', JStr ''First''), (''abstract'', JStr ''Pool abstract''),
            (''tags'', JArr [JStr ''ai''])]]"

definition demo_trending :: "json list" where
  "demo_trending =
     [JObj [(''id'', JStr ''reddit-ai-0''), (''title'', JStr ''AI news''),
            (''abstract'', JStr ''Popular discussion on trending topics''), (''source'', JStr ''reddit'')]]"

definition demo_long_out :: json where
  "demo_long_out =
     JObj [(''tags'', JArr (replicate 21 (JObj [(''tag'', JStr ''ai''), (''score'', JFloat (Fin 5)),
                                               (''wildcard'', JBool False)]))),
           (''articles'', JArr (replicate 21 (JObj [(''id'', JStr ''c1''), (''score'', JFloat (Fin 4)),
                                                   (''wildcard'', JBool False)])))]"

section \<open>Calling the model (azure\_openai\_helper.py)\<close>

text \<open>
  The chat-completion endpoint is outside the program: \<open>client k prompt\<close> is the
  outcome of the \<open>k\<close>-th request ever made (the reply's text, or the exception raised
  by the request or by reading the reply). The state records how many requests were made
  and the arguments of \<open>time.sleep\<close>, in order.
\<close>

record llm_trace =
  calls :: nat
  sleeps :: "nat list"

type_synonym llm_client = "nat \<Rightarrow> string \<Rightarrow> pyerror + string"

text \<open>
  The loop \<open>for attempt in range(max_retries)\<close> of \<open>_call_chat_completion\<close>, over the
  attempts still to come. A reply returns at once; a failure sleeps \<open>2 ** attempt\<close>
  seconds and goes on when \<open>attempt < max_retries - 1\<close>, and is raised again otherwise.
  After the loop the function returns the empty string.
\<close>

fun retry_loop ::
  "llm_client \<Rightarrow> string \<Rightarrow> int \<Rightarrow> nat list \<Rightarrow> llm_trace \<Rightarrow> (pyerror + string) \<times> llm_trace" where
  "retry_loop client prompt max_retries [] tr = (Inr [], tr)"
| "retry_loop client prompt max_retries (attempt # rest) tr =
     (case client (calls tr) prompt of
        Inr content \<Rightarrow> (Inr content, tr\<lparr>calls := calls tr + 1\<rparr>)
      | Inl e \<Rightarrow>
          if int attempt < max_retries - 1
          then retry_loop client prompt max_retries rest
                 (tr\<lparr>calls := calls tr + 1, sleeps := sleeps tr @ [2 ^ attempt]\<rparr>)
          else (Inl e, tr\<lparr>calls := calls tr + 1\<rparr>))"

definition call_chat_completion ::
  "llm_client \<Rightarrow> string \<Rightarrow> int \<Rightarrow> llm_trace \<Rightarrow> (pyerror + string) \<times> llm_trace" where
  "call_chat_completion client prompt max_retries tr =
     retry_loop client prompt max_retries [0..<nat max_retries] tr"

text \<open>
  \<open>generate_llm_only_recommendations\<close>. Everything before the request (compressing the
  articles, fetching the trends, formatting the prompt) is the argument \<open>prepared\<close>: the
  prompt, or the exception one of these steps raised. The request is made with the default
  \<open>max_retries = 3\<close>. The \<open>except Exception\<close> clause around the whole body returns
  the empty result.
\<close>

definition generate_body ::
  "(string \<Rightarrow> json option) \<Rightarrow> (string \<Rightarrow> pyfloat option) \<Rightarrow> llm_client \<Rightarrow> pyerror + string
     \<Rightarrow> llm_trace \<Rightarrow> (pyerror + json) \<times> llm_trace" where
  "generate_body loads sf client prepared tr =
     (case prepared of
        Inl e \<Rightarrow> (Inl e, tr)
      | Inr prompt \<Rightarrow>
          (case call_chat_completion client prompt 3 tr of
             (Inl e, tr') \<Rightarrow> (Inl e, tr')
           | (Inr raw, tr') \<Rightarrow> (Inr (parse_llm_only_output loads sf raw), tr')))"

definition generate_llm_only_recommendations ::
  "(string \<Rightarrow> json option) \<Rightarrow> (string \<Rightarrow> pyfloat option) \<Rightarrow> llm_client \<Rightarrow> pyerror + string
     \<Rightarrow> llm_trace \<Rightarrow> (pyerror + json) \<times> llm_trace" where
  "generate_llm_only_recommendations loads sf client prepared tr =
     (case generate_body loads sf client prepared tr of
        (Inl e, tr') \<Rightarrow> (Inr empty_result, tr')
      | (Inr r, tr') \<Rightarrow> (Inr r, tr'))"

text \<open>An endpoint that is down: every request raises.\<close>

definition failing_client :: llm_client where
  "failing_client k prompt = Inl (ExternalError ''service unavailable'')"

section \<open>The skip-update policy (user\_manager.py)\<close>

text \<open>
  A \<open>datetime\<close>: its wall-clock reading in microseconds, and its offset from UTC in
  microseconds when it is timezone-aware (\<open>None\<close> for a naive one). Subtracting a naive
  and an aware datetime raises TypeError.
\<close>

record datetime =
  micros :: int
  utcoffset :: "int option"

definition dt_sub :: "datetime \<Rightarrow> datetime \<Rightarrow> pyerror + int" where
  "dt_sub a b =
     (case (utcoffset a, utcoffset b) of
        (None, None) \<Rightarrow> Inr (micros a - micros b)
      | (Some oa, Some ob) \<Rightarrow> Inr ((micros a - oa) - (micros b - ob))
      | _ \<Rightarrow> Inl TypeError)"

text \<open>\<open>s.replace(c, r)\<close> for a single character \<open>c\<close>.\<close>

definition replace_char :: "char \<Rightarrow> string \<Rightarrow> string \<Rightarrow> string" where
  "replace_char c r s = concat (map (\<lambda>x. if x = c then r else [x]) s)"

text \<open>
  The \<open>try\<close> block of \<open>should_skip_update\<close>. \<open>fromisoformat\<close> is
  \<open>datetime.fromisoformat\<close> (\<open>None\<close> where it raises ValueError), \<open>now\<close> the
  reading of \<open>datetime.utcnow()\<close>, a naive datetime. \<open>total_seconds() / 3600\<close> is the
  difference in microseconds divided by \<open>3600 * 10^6\<close>.
\<close>

definition should_skip_body ::
  "(string \<Rightarrow> datetime option) \<Rightarrow> int \<Rightarrow> json \<Rightarrow> int \<Rightarrow> pyerror + bool" where
  "should_skip_body fromisoformat now user_data hours_threshold =
     try_bind (py_get user_data ''recommendations_updated_at'' JNull) (\<lambda>last_updated.
       if \<not> py_bool last_updated then Inr False
       else (case last_updated of
               JStr s \<Rightarrow>
                 (case fromisoformat (replace_char CHR ''Z'' ''+00:00'' s) of
                    None \<Rightarrow> Inl ValueError
                  | Some last_update \<Rightarrow>
                      try_bind (dt_sub \<lparr>micros = now, utcoffset = None\<rparr> last_update) (\<lambda>delta.
                        Inr ((of_int delta :: rat) / 3600000000 < of_int hours_threshold)))
             | _ \<Rightarrow> Inl AttributeError))"

definition should_skip_update ::
  "(string \<Rightarrow> datetime option) \<Rightarrow> int \<Rightarrow> json \<Rightarrow> int \<Rightarrow> bool" where
  "should_skip_update fromisoformat now user_data hours_threshold =
     (case should_skip_body fromisoformat now user_data hours_threshold of
        Inl _ \<Rightarrow> False
      | Inr b \<Rightarrow> b)"

text \<open>
  A sample of \<open>fromisoformat\<close>: noon of a day whose midnight is microsecond 0, written
  without and with the offset \<open>+00:00\<close>.
\<close>

definition demo_fromisoformat :: "string \<Rightarrow> datetime option" where
  "demo_fromisoformat s =
     (if s = ''2025-01-01T12:00:00'' then Some \<lparr>micros = 43200000000, utcoffset = None\<rparr>
      else if s = ''2025-01-01T12:00:00+00:00'' then Some \<lparr>micros = 43200000000, utcoffset = Some 0\<rparr>
      else None)"

section \<open>The candidate pool (cosmos\_helper.py)\<close>

text \<open>\<open>d.setdefault(k, v)\<close>: the key is added only when the dict does not have it.\<close>

definition dict_setdefault :: "(string \<times> json) list \<Rightarrow> string \<Rightarrow> json \<Rightarrow> (string \<times> json) list" where
  "dict_setdefault d k v = (case map_of d k of None \<Rightarrow> d @ [(k, v)] | Some _ \<Rightarrow> d)"

text \<open>
  The document store is outside the program. \<open>query_published limit\<close> is the outcome of
  the query for the first \<open>limit\<close> active, published articles, \<open>query_any limit\<close> that
  of the query without the filter: the rows, or the exception raised. \<open>query_rows\<close> is
  the variable \<open>items\<close> after the fallback.
\<close>

definition query_rows ::
  "(int \<Rightarrow> pyerror + json list) \<Rightarrow> (int \<Rightarrow> pyerror + json list) \<Rightarrow> int \<Rightarrow> pyerror + json list" where
  "query_rows query_published query_any limit =
     try_bind (query_published limit) (\<lambda>items.
       if items = [] then query_any limit else Inr items)"

text \<open>
  One round of the loop over \<open>items\<close>. \<open>it.get("id") in exclude_ids\<close> raises
  TypeError for an id that cannot be hashed; the excluded ids are strings, so only a string
  id can be among them.
\<close>

definition candidate_item :: "string list \<Rightarrow> json \<Rightarrow> pyerror + json list" where
  "candidate_item exclude_ids it =
     (case it of
        JObj d \<Rightarrow>
          (let i = dict_get_default d ''id'' JNull
           in if \<not> hashable i then Inl TypeError
              else if (case i of JStr s \<Rightarrow> s \<in> set exclude_ids | _ \<Rightarrow> False) then Inr []
              else Inr [JObj (dict_setdefault (dict_setdefault d ''abstract'' (JStr [])) ''tags'' (JArr []))])
      | _ \<Rightarrow> Inl AttributeError)"

definition candidates_body ::
  "(int \<Rightarrow> pyerror + json list) \<Rightarrow> (int \<Rightarrow> pyerror + json list) \<Rightarrow> string list option \<Rightarrow> int
     \<Rightarrow> pyerror + json list" where
  "candidates_body query_published query_any exclude_ids limit =
     try_bind (query_rows query_published query_any limit) (\<lambda>items.
     try_bind (map_err (candidate_item (case exclude_ids of None \<Rightarrow> [] | Some xs \<Rightarrow> xs)) items)
       (\<lambda>candidates. Inr (concat candidates)))"

text \<open>\<open>get_candidate_articles\<close>: any exception gives the empty list.\<close>

definition get_candidate_articles ::
  "(int \<Rightarrow> pyerror + json list) \<Rightarrow> (int \<Rightarrow> pyerror + json list) \<Rightarrow> string list option \<Rightarrow> int
     \<Rightarrow> json list" where
  "get_candidate_articles query_published query_any exclude_ids limit =
     (case candidates_body query_published query_any exclude_ids limit of
        Inl _ \<Rightarrow> []
      | Inr candidates \<Rightarrow> candidates)"

text \<open>
  A sample store: no article is active and published; the unfiltered query returns an
  article the user has read, one without abstract and tags, and one whose abstract and tags
  are stored as null.
\<close>

definition demo_query_published :: "int \<Rightarrow> pyerror + json list" where
  "demo_query_published limit = Inr []"

definition demo_query_any :: "int \<Rightarrow> pyerror + json list" where
  "demo_query_any limit =
     Inr [JObj [(''id'', JStr ''read-1''), (''title'', JStr ''Seen''), (''abstract'', JStr ''Old''),
                (''tags'', JArr [])],
          JObj [(''id'', JStr ''new-1''), (''title'', JStr ''Bare'')],
          JObj [(''id'', JStr ''new-2''), (''title'', JStr ''Nulls''), (''abstract'', JNull),
                (''tags'', JNull)]]"

section \<open>Trending topics (trending\_helper.py)\<close>

text \<open>
  \<open>list(dict.fromkeys(xs))\<close>: the keys are inserted in order, and a key that is already
  there keeps its place.
\<close>

fun dict_fromkeys_acc :: "'a list \<Rightarrow> 'a list \<Rightarrow> 'a list" where
  "dict_fromkeys_acc seen [] = seen"
| "dict_fromkeys_acc seen (x # xs) = dict_fromkeys_acc (if x \<in> set seen then seen else seen @ [x]) xs"

definition dict_fromkeys :: "'a list \<Rightarrow> 'a list" where
  "dict_fromkeys xs = dict_fromkeys_acc [] xs"

text \<open>
  The two network feeds are outside the program. \<open>newsapi_topics limit\<close> and
  \<open>reddit_topics limit\<close> are the outcomes of the \<open>try\<close> blocks of
  \<open>_get_trending_from_newsapi\<close> and \<open>_get_trending_from_reddit\<close> up to their last
  line: the list \<open>topics\<close> built from the titles, or the exception raised on the way.
\<close>

record trend_feeds =
  news_api_key :: "string option"
  newsapi_topics :: "int \<Rightarrow> pyerror + string list"
  reddit_topics :: "int \<Rightarrow> pyerror + string list"

definition has_news_api_key :: "trend_feeds \<Rightarrow> bool" where
  "has_news_api_key feeds = (case news_api_key feeds of None \<Rightarrow> False | Some k \<Rightarrow> k \<noteq> [])"

definition get_trending_from_newsapi :: "trend_feeds \<Rightarrow> int \<Rightarrow> string list" where
  "get_trending_from_newsapi feeds limit =
     (if \<not> has_news_api_key feeds then []
      else (case newsapi_topics feeds limit of Inl _ \<Rightarrow> [] | Inr topics \<Rightarrow> py_take limit topics))"

definition get_trending_from_reddit :: "trend_feeds \<Rightarrow> int \<Rightarrow> string list" where
  "get_trending_from_reddit feeds limit =
     (case reddit_topics feeds limit of Inl _ \<Rightarrow> [] | Inr topics \<Rightarrow> py_take limit topics)"

definition current_trending :: "string list" where
  "current_trending =
     [''ai-advancements'', ''climate-action'', ''tech-innovation'', ''global-economy'',
      ''space-exploration'']"

definition get_trending_from_twitter :: "int \<Rightarrow> string list" where
  "get_trending_from_twitter limit = py_take limit current_trending"

definition get_fallback_trending_topics :: "int \<Rightarrow> string list" where
  "get_fallback_trending_topics limit =
     py_take limit
       [''ai-breakthrough'', ''climate-solutions'', ''tech-innovation'', ''global-events'',
        ''space-news'', ''health-advances'', ''economic-trends'', ''sports-highlights'']"

text \<open>
  The \<open>try\<close> block of \<open>get_trending_topics\<close>. The three feed functions catch their own
  exceptions, and nothing else in the block raises for an integer limit.
\<close>

definition trending_topics_body :: "trend_feeds \<Rightarrow> int \<Rightarrow> pyerror + string list" where
  "trending_topics_body feeds limit =
     (let trending_topics =
            (if has_news_api_key feeds then get_trending_from_newsapi feeds limit else [])
            @ get_trending_from_reddit feeds limit
            @ get_trending_from_twitter limit
      in Inr (py_take limit (dict_fromkeys trending_topics)))"

definition get_trending_topics :: "trend_feeds \<Rightarrow> int \<Rightarrow> string list" where
  "get_trending_topics feeds limit =
     (case trending_topics_body feeds limit of
        Inl _ \<Rightarrow> get_fallback_trending_topics limit
      | Inr unique_topics \<Rightarrow> unique_topics)"

text \<open>The scenario of the spec: the news feed raises, the social feed returns three topics.\<close>

definition demo_feeds :: trend_feeds where
  "demo_feeds =
     \<lparr>news_api_key = Some ''key'',
      newsapi_topics = (\<lambda>limit. Inl (ExternalError ''timeout'')),
      reddit_topics = (\<lambda>limit. Inr [''quantum-computing'', ''mars-mission'', ''election-results''])\<rparr>"

section \<open>The cached batch lookup (cosmos\_helper.py)\<close>

text \<open>
  A cache entry holds the article and the reading of \<open>time.time()\<close> when it was stored;
  the cache is a dict keyed by whatever \<open>article.get('id')\<close> was. It is only ever read
  with a string key. The clock readings taken during one lookup are one instant \<open>now\<close>;
  the reading taken by \<open>_update_cache\<close> is \<open>current_time\<close>.
\<close>

record cache_entry =
  article :: json
  timestamp :: rat















section \<open>Verification\<close>

subsection \<open>Score clamping\<close>

lemma round_half_even_lower: "\<lfloor>x\<rfloor> \<le> round_half_even x"
  by (simp add: round_half_even_def Let_def)

lemma round_half_even_upper: "x \<le> of_int n \<Longrightarrow> round_half_even x \<le> n"
proof -
  assume h: "x \<le> of_int n"
  have f: "\<lfloor>x\<rfloor> \<le> n" using h by (simp add: floor_le_iff)
  show ?thesis
  proof (cases "x = of_int \<lfloor>x\<rfloor>")
    case True
    then have "x - of_int \<lfloor>x\<rfloor> = 0" by simp
    then show ?thesis using f by (simp add: round_half_even_def Let_def)
  next
    case False
    have "of_int \<lfloor>x\<rfloor> \<le> x" by simp
    with False have "of_int \<lfloor>x\<rfloor> < x" by linarith
    with h have "(of_int \<lfloor>x\<rfloor> :: rat) < of_int n" by linarith
    then have "\<lfloor>x\<rfloor> < n" by simp
    then show ?thesis by (simp add: round_half_even_def Let_def)
  qed
qed

lemma clamp_tag_range: "\<exists>q. py_max (Fin 1) (py_min (Fin 5) s) = Fin q \<and> 1 \<le> q \<and> q \<le> 5"
  by (cases s) (auto simp: py_min_def py_max_def)

lemma clamp_article_fin: "\<exists>q. py_max (Fin 0) (py_min (Fin 5) s) = Fin q \<and> 0 \<le> q \<and> q \<le> 5"
  by (cases s) (auto simp: py_min_def py_max_def)

lemma round4_range:
  assumes "0 \<le> q" "q \<le> 5"
  shows "\<exists>r. py_round4 (Fin q) = Fin r \<and> 0 \<le> r \<and> r \<le> 5 \<and> (\<exists>k::int. r = of_int k / 10000)"
proof -
  let ?k = "round_half_even (q * 10000)"
  have "0 \<le> \<lfloor>q * 10000\<rfloor>" using assms by simp
  then have lo: "0 \<le> ?k" using round_half_even_lower [of "q * 10000"] by linarith
  have "q * 10000 \<le> of_int 50000" using assms by simp
  then have hi: "?k \<le> 50000" by (rule round_half_even_upper)
  have "(of_int ?k :: rat) \<le> of_int 50000" using hi by (simp only: of_int_le_iff)
  then have hi': "(of_int ?k :: rat) / 10000 \<le> 5" by simp
  have lo': "0 \<le> (of_int ?k :: rat) / 10000" using lo by simp
  have "py_round4 (Fin q) = Fin (of_int ?k / 10000)" by simp
  moreover have "\<exists>k::int. (of_int ?k :: rat) / 10000 = of_int k / 10000" by blast
  ultimately show ?thesis using lo' hi' by blast
qed

lemma clamp_article_range:
  "\<exists>r. py_round4 (py_max (Fin 0) (py_min (Fin 5) s)) = Fin r \<and> 0 \<le> r \<and> r \<le> 5
      \<and> (\<exists>k::int. r = of_int k / 10000)"
proof -
  obtain q where q: "py_max (Fin 0) (py_min (Fin 5) s) = Fin q" "0 \<le> q" "q \<le> 5"
    using clamp_article_fin by blast
  show ?thesis unfolding q(1) using round4_range [OF q(2) q(3)] .
qed

lemma parse_tag_entry_ok: "t \<in> set (parse_tag_entry sf v) \<Longrightarrow>
   \<exists>tg q w. t = JObj [(''tag'', tg), (''score'', JFloat (Fin q)), (''wildcard'', JBool w)] \<and> 1 \<le> q \<and> q \<le> 5"
  using clamp_tag_range
  by (cases v) (auto split: option.splits sum.splits)

lemma parse_article_entry_ok: "a \<in> set (parse_article_entry sf v) \<Longrightarrow>
   \<exists>i q w. a = JObj [(''id'', i), (''score'', JFloat (Fin q)), (''wildcard'', JBool w)]
      \<and> 0 \<le> q \<and> q \<le> 5 \<and> (\<exists>k::int. q = of_int k / 10000)"
  using clamp_article_range
  by (cases v) (auto split: option.splits sum.splits)

subsection \<open>The parser\<close>

lemma parse_body_shape:
  "parse_body loads sf response = Inr r \<Longrightarrow>
     \<exists>data ts as. loads (strip_fences response) = Some (JObj data)
       \<and> py_iter (dict_get_default data ''tags'' (JArr [])) = Inr ts
       \<and> py_iter (dict_get_default data ''articles'' (JArr [])) = Inr as
       \<and> r = JObj [(''tags'', JArr (concat (map (parse_tag_entry sf) ts))),
                   (''articles'', JArr (concat (map (parse_article_entry sf) as)))]"
  by (auto simp: parse_body_def split: option.splits json.splits sum.splits)

lemma parse_tag_entry_dropped:
  "(parse_tag_entry sf v = []) =
     (case v of
        JObj t \<Rightarrow> dict_get t ''tag'' = None \<or>
                  (case dict_get t ''score'' of None \<Rightarrow> True | Some sc \<Rightarrow> isl (py_float sf sc))
      | _ \<Rightarrow> True)"
  by (cases v) (auto split: option.splits sum.splits)

lemma parse_article_entry_dropped:
  "(parse_article_entry sf v = []) =
     (case v of
        JObj a \<Rightarrow> dict_get a ''id'' = None \<or>
                  (case dict_get a ''score'' of None \<Rightarrow> True | Some sc \<Rightarrow> isl (py_float sf sc))
      | _ \<Rightarrow> True)"
  by (cases v) (auto split: option.splits sum.splits)

text \<open>
  Claim C3. Whatever the reply, the parser returns a dict of two lists; every tag entry has
  a finite score between 1 and 5, every article entry a finite score between 0 and 5 that
  is a multiple of 1/10000 (the rounding to 4 decimals). When the reply decodes to a dict
  with two lists, the result lists are the entries kept from them, in order. An element
  is dropped exactly when it is no dict, lacks the tag (id) key or the score key, or its
  score does not convert to a float; nothing is raised.
\<close>

theorem parse_llm_only_output_scores:
  "(\<exists>ts as. parse_llm_only_output loads sf response = JObj [(''tags'', JArr ts), (''articles'', JArr as)]
      \<and> (\<forall>t \<in> set ts. \<exists>tg q w.
            t = JObj [(''tag'', tg), (''score'', JFloat (Fin q)), (''wildcard'', JBool w)]
            \<and> 1 \<le> q \<and> q \<le> 5)
      \<and> (\<forall>a \<in> set as. \<exists>i q w.
            a = JObj [(''id'', i), (''score'', JFloat (Fin q)), (''wildcard'', JBool w)]
            \<and> 0 \<le> q \<and> q \<le> 5 \<and> (\<exists>k::int. q = of_int k / 10000))
      \<and> (\<forall>data tin ain.
            loads (strip_fences response) = Some (JObj data)
            \<and> dict_get data ''tags'' = Some (JArr tin)
            \<and> dict_get data ''articles'' = Some (JArr ain)
            \<longrightarrow> ts = concat (map (parse_tag_entry sf) tin)
               \<and> as = concat (map (parse_article_entry sf) ain)))
   \<and> (parse_tag_entry sf v = []) =
       (case v of
          JObj t \<Rightarrow> dict_get t ''tag'' = None \<or>
                    (case dict_get t ''score'' of None \<Rightarrow> True | Some sc \<Rightarrow> isl (py_float sf sc))
        | _ \<Rightarrow> True)
   \<and> (parse_article_entry sf v = []) =
       (case v of
          JObj a \<Rightarrow> dict_get a ''id'' = None \<or>
                    (case dict_get a ''score'' of None \<Rightarrow> True | Some sc \<Rightarrow> isl (py_float sf sc))
        | _ \<Rightarrow> True)"
proof -
  have main: "\<exists>ts as. parse_llm_only_output loads sf response = JObj [(''tags'', JArr ts), (''articles'', JArr as)]
      \<and> (\<forall>t \<in> set ts. \<exists>tg q w.
            t = JObj [(''tag'', tg), (''score'', JFloat (Fin q)), (''wildcard'', JBool w)]
            \<and> 1 \<le> q \<and> q \<le> 5)
      \<and> (\<forall>a \<in> set as. \<exists>i q w.
            a = JObj [(''id'', i), (''score'', JFloat (Fin q)), (''wildcard'', JBool w)]
            \<and> 0 \<le> q \<and> q \<le> 5 \<and> (\<exists>k::int. q = of_int k / 10000))
      \<and> (\<forall>data tin ain.
            loads (strip_fences response) = Some (JObj data)
            \<and> dict_get data ''tags'' = Some (JArr tin)
            \<and> dict_get data ''articles'' = Some (JArr ain)
            \<longrightarrow> ts = concat (map (parse_tag_entry sf) tin)
               \<and> as = concat (map (parse_article_entry sf) ain))"
  proof (cases "parse_body loads sf response")
    case (Inl e)
    then have r: "parse_llm_only_output loads sf response = JObj [(''tags'', JArr []), (''articles'', JArr [])]"
      by (simp add: parse_llm_only_output_def empty_result_def)
    have "\<forall>data tin ain.
            loads (strip_fences response) = Some (JObj data)
            \<and> dict_get data ''tags'' = Some (JArr tin)
            \<and> dict_get data ''articles'' = Some (JArr ain)
            \<longrightarrow> False"
      using Inl by (auto simp: parse_body_def dict_get_def dict_get_default_def)
    then show ?thesis using r by auto
  next
    case (Inr r)
    from parse_body_shape [OF Inr] obtain data ts as where
      d: "loads (strip_fences response) = Some (JObj data)"
      and t: "py_iter (dict_get_default data ''tags'' (JArr [])) = Inr ts"
      and a: "py_iter (dict_get_default data ''articles'' (JArr [])) = Inr as"
      and r: "r = JObj [(''tags'', JArr (concat (map (parse_tag_entry sf) ts))),
                   (''articles'', JArr (concat (map (parse_article_entry sf) as)))]"
      by blast
    have out: "parse_llm_only_output loads sf response =
         JObj [(''tags'', JArr (concat (map (parse_tag_entry sf) ts))),
               (''articles'', JArr (concat (map (parse_article_entry sf) as)))]"
      using Inr r by (simp add: parse_llm_only_output_def)
    have tg: "\<forall>t \<in> set (concat (map (parse_tag_entry sf) ts)). \<exists>tg q w.
            t = JObj [(''tag'', tg), (''score'', JFloat (Fin q)), (''wildcard'', JBool w)]
            \<and> 1 \<le> q \<and> q \<le> 5"
      using parse_tag_entry_ok by auto
    have ar: "\<forall>a \<in> set (concat (map (parse_article_entry sf) as)). \<exists>i q w.
            a = JObj [(''id'', i), (''score'', JFloat (Fin q)), (''wildcard'', JBool w)]
            \<and> 0 \<le> q \<and> q \<le> 5 \<and> (\<exists>k::int. q = of_int k / 10000)"
      using parse_article_entry_ok by auto
    have eq: "\<forall>data' tin ain.
            loads (strip_fences response) = Some (JObj data')
            \<and> dict_get data' ''tags'' = Some (JArr tin)
            \<and> dict_get data' ''articles'' = Some (JArr ain)
            \<longrightarrow> concat (map (parse_tag_entry sf) ts) = concat (map (parse_tag_entry sf) tin)
               \<and> concat (map (parse_article_entry sf) as) = concat (map (parse_article_entry sf) ain)"
      using d t a by (auto simp: dict_get_def dict_get_default_def)
    show ?thesis using out tg ar eq by blast
  qed
  show ?thesis using main parse_tag_entry_dropped [of sf v] parse_article_entry_dropped [of sf v]
    by blast
qed

lemma demo_parse:
  "parse_llm_only_output demo_loads demo_sf (fence @ ''jsonDOC'' @ fence) = 
  JObj [(''tags'', JArr [JObj [(''tag'', JStr ''ai''), (''score'', JFloat (Fin 5)), (''wildcard'', JBool False)]]),
        (''articles'', JArr [JObj [(''id'', JStr ''a1''), (''score'', JFloat (Fin (12346 / 10000))), (''wildcard'', JBool False)],
                 JObj [(''id'', JStr ''a2''), (''score'', JFloat (Fin 5)), (''wildcard'', JBool True)]])]"
  by code_simp

text \<open>
  The sample reply: a score of 9 is clamped to 5, 1.23456 is rounded to 1.2346, NaN becomes
  5, and the entries without a number or without a key are dropped.
\<close>

theorem parse_llm_only_output_scores_witness:
  "parse_llm_only_output demo_loads demo_sf (fence @ ''jsonDOC'' @ fence) =
     JObj [(''tags'', JArr [JObj [(''tag'', JStr ''ai''), (''score'', JFloat (Fin 5)), (''wildcard'', JBool False)]]),
           (''articles'', JArr [JObj [(''id'', JStr ''a1''), (''score'', JFloat (Fin (12346 / 10000))), (''wildcard'', JBool False)],
                 JObj [(''id'', JStr ''a2''), (''score'', JFloat (Fin 5)), (''wildcard'', JBool True)]])]
   \<and> (\<exists>q. JFloat (Fin 5) = JFloat (Fin q) \<and> 1 \<le> q \<and> q \<le> 5)
   \<and> (\<exists>q. JFloat (Fin (12346 / 10000)) = JFloat (Fin q) \<and> 0 \<le> q \<and> q \<le> 5 \<and> (\<exists>k::int. q = of_int k / 10000))
   \<and> parse_tag_entry demo_sf (JObj [(''tag'', JStr ''ml''), (''score'', JStr ''high'')]) = []
   \<and> parse_article_entry demo_sf (JObj [(''score'', JInt 3)]) = []"
proof -
  note T = parse_llm_only_output_scores [of demo_loads demo_sf "fence @ ''jsonDOC'' @ fence"]
  from T [of "JObj [(''tag'', JStr ''ml''), (''score'', JStr ''high'')]"]
  have d1: "parse_tag_entry demo_sf (JObj [(''tag'', JStr ''ml''), (''score'', JStr ''high'')]) = []"
    by (simp add: dict_get_def demo_sf_def)
  from T [of "JObj [(''score'', JInt 3)]"]
  have d2: "parse_article_entry demo_sf (JObj [(''score'', JInt 3)]) = []"
    by (simp add: dict_get_def)
  from T [of JNull] obtain ts as where
    e: "parse_llm_only_output demo_loads demo_sf (fence @ ''jsonDOC'' @ fence) =
          JObj [(''tags'', JArr ts), (''articles'', JArr as)]"
    and t: "\<forall>t \<in> set ts. \<exists>tg q w.
            t = JObj [(''tag'', tg), (''score'', JFloat (Fin q)), (''wildcard'', JBool w)]
            \<and> 1 \<le> q \<and> q \<le> 5"
    and a: "\<forall>a \<in> set as. \<exists>i q w.
            a = JObj [(''id'', i), (''score'', JFloat (Fin q)), (''wildcard'', JBool w)]
            \<and> 0 \<le> q \<and> q \<le> 5 \<and> (\<exists>k::int. q = of_int k / 10000)"
    by blast
  from e have ts: "ts = [JObj [(''tag'', JStr ''ai''), (''score'', JFloat (Fin 5)), (''wildcard'', JBool False)]]"
    and as: "as = [JObj [(''id'', JStr ''a1''), (''score'', JFloat (Fin (12346 / 10000))), (''wildcard'', JBool False)],
                 JObj [(''id'', JStr ''a2''), (''score'', JFloat (Fin 5)), (''wildcard'', JBool True)]]"
    unfolding demo_parse by simp_all
  from t have c1: "\<exists>q. JFloat (Fin 5) = JFloat (Fin q) \<and> 1 \<le> q \<and> q \<le> 5"
    unfolding ts by simp
  from a have c2: "\<exists>q. JFloat (Fin (12346 / 10000)) = JFloat (Fin q) \<and> 0 \<le> q \<and> q \<le> 5 \<and> (\<exists>k::int. q = of_int k / 10000)"
    unfolding as by fastforce
  show ?thesis using demo_parse c1 c2 d1 d2 by blast
qed

text \<open>
  Claim C4. When the text left after stripping the code-fence markers does not decode as
  JSON, the parser returns the empty result (and, being a total function, raises nothing).
\<close>

theorem parse_llm_only_output_malformed:
  "loads (strip_fences response) = None \<Longrightarrow>
     parse_llm_only_output loads sf response = JObj [(''tags'', JArr []), (''articles'', JArr [])]"
  by (simp add: parse_llm_only_output_def parse_body_def empty_result_def)

lemma demo_strip: "strip_fences (fence @ ''json{\"tags\": ['' @ fence) = ''{\"tags\": [''"
  by (simp add: strip_fences_def py_strip_def is_space_def startswith_def endswith_def fence_def backtick_def Let_def)

text \<open>
  A reply cut off after the opening bracket of the tags.
\<close>

theorem parse_llm_only_output_malformed_witness:
  "demo_loads (strip_fences (fence @ ''json{\"tags\": ['' @ fence)) = None
   \<and> parse_llm_only_output demo_loads demo_sf (fence @ ''json{\"tags\": ['' @ fence)
       = JObj [(''tags'', JArr []), (''articles'', JArr [])]"
proof -
  have h: "demo_loads (strip_fences (fence @ ''json{\"tags\": ['' @ fence)) = None"
    unfolding demo_strip by (simp add: demo_loads_def)
  from parse_llm_only_output_malformed [of demo_loads "fence @ ''json{\"tags\": ['' @ fence" demo_sf] h
  show ?thesis by blast
qed

subsection \<open>Processing the LLM output\<close>

lemma try_bind_Inr: "try_bind x f = Inr r \<Longrightarrow> \<exists>v. x = Inr v \<and> f v = Inr r"
  by (cases x) (simp_all add: try_bind_def)

lemma map_err_Inr: "map_err f xs = Inr ys \<Longrightarrow> list_all2 (\<lambda>x y. f x = Inr y) xs ys"
  by (induction xs arbitrary: ys) (auto split: sum.splits)

lemma map_err_length: "map_err f xs = Inr ys \<Longrightarrow> length ys = length xs"
  by (drule map_err_Inr) (rule list_all2_lengthD [symmetric])

lemma slice_iter_length:
  "py_slice_to n v = Inr w \<Longrightarrow> py_iter w = Inr xs \<Longrightarrow> length xs \<le> n"
  by (cases v) auto

lemma slice_iter_list:
  "py_slice_to n (JArr ys) = Inr w \<Longrightarrow> py_iter w = Inr xs \<Longrightarrow> xs = take n ys"
  by auto

lemma article_recommendation_length:
  "article_recommendation by_id a = Inr rs \<Longrightarrow> length rs \<le> 1"
  by (auto simp: article_recommendation_def try_bind_def split: sum.splits if_splits json.splits)

lemma concat_length_le:
  "list_all2 (\<lambda>x y. length y \<le> 1) xs yss \<Longrightarrow> length (concat yss) \<le> length xs"
  by (induction xs yss rule: list_all2_induct) auto

lemma process_body_Inr:
  assumes "process_body llm_out candidates = Inr r"
  shows "\<exists>tags_field tags_slice all_tags trs by_id articles_field articles_slice all_articles ars wids.
     py_get llm_out ''tags'' (JArr []) = Inr tags_field
   \<and> py_slice_to 20 tags_field = Inr tags_slice
   \<and> py_iter tags_slice = Inr all_tags
   \<and> map_err tag_recommendation all_tags = Inr trs
   \<and> candidate_abstract_by_id candidates = Inr by_id
   \<and> py_get llm_out ''articles'' (JArr []) = Inr articles_field
   \<and> py_slice_to 20 articles_field = Inr articles_slice
   \<and> py_iter articles_slice = Inr all_articles
   \<and> map_err (article_recommendation by_id) all_articles = Inr ars
   \<and> map_err wildcard_article_id all_articles = Inr wids
   \<and> r = JObj [(''tags'', JArr trs), (''articles'', JArr (concat ars))]"
  using assms unfolding process_body_def
  by (auto dest!: try_bind_Inr)

lemma find_append_case:
  "List.find P (xs @ ys) = (case List.find P xs of None \<Rightarrow> List.find P ys | Some x \<Rightarrow> Some x)"
  by (induction xs) auto

lemma abstract_dict_lookup:
  "abstract_dict m cs = Inr m' \<Longrightarrow>
     m' k = (case List.find (\<lambda>c. get_field ''id'' c = k) (rev cs) of
               None \<Rightarrow> m k
             | Some c \<Rightarrow> Some (get_field_or ''abstract'' (JStr []) c))"
proof (induction cs arbitrary: m)
  case Nil
  then show ?case by simp
next
  case (Cons c cs)
  from Cons.prems obtain d where c: "c = JObj d"
    and h: "hashable (dict_get_default d ''id'' JNull)"
    and rec: "abstract_dict (m(dict_get_default d ''id'' JNull \<mapsto> dict_get_default d ''abstract'' (JStr []))) cs = Inr m'"
    by (auto simp: Let_def split: json.splits if_splits)
  show ?case
    unfolding Cons.IH [OF rec]
    by (simp add: find_append_case c get_field_def get_field_or_def split: option.splits)
qed

lemma candidate_abstract_by_id_lookup:
  "candidate_abstract_by_id cs = Inr m \<Longrightarrow>
     m k = (case List.find (\<lambda>c. get_field ''id'' c = k) (rev cs) of
               None \<Rightarrow> None
             | Some c \<Rightarrow> Some (get_field_or ''abstract'' (JStr []) c))"
  unfolding candidate_abstract_by_id_def by (drule abstract_dict_lookup [where k = k]) simp

lemma article_recommendation_entry:
  "article_recommendation by_id a = Inr rs \<Longrightarrow> r \<in> set rs \<Longrightarrow>
     \<exists>s sc. s \<noteq> [] \<and> py_get a ''id'' JNull = Inr (JStr s) \<and> py_get a ''score'' (JInt 0) = Inr sc
       \<and> r = JObj [(''id'', JStr s), (''score'', sc),
                   (''abstract'', if is_trending_id s then JStr trending_abstract
                                 else (case by_id (JStr s) of None \<Rightarrow> JStr [] | Some v \<Rightarrow> v))]"
proof -
  assume a: "article_recommendation by_id a = Inr rs" and r: "r \<in> set rs"
  from a obtain art_id where
    i: "py_get a ''id'' JNull = Inr art_id"
    and b: "(if \<not> py_bool art_id then Inr []
             else (case art_id of
               JStr s \<Rightarrow>
                 try_bind (py_get a ''score'' (JInt 0)) (\<lambda>sc.
                   Inr [JObj [(''id'', JStr s),
                              (''score'', sc),
                              (''abstract'',
                                 if is_trending_id s then JStr trending_abstract
                                 else (case by_id (JStr s) of None \<Rightarrow> JStr [] | Some v \<Rightarrow> v))]])
             | _ \<Rightarrow> Inl AttributeError)) = Inr rs"
    unfolding article_recommendation_def by (auto dest!: try_bind_Inr)
  from b r have t: "py_bool art_id" by (auto split: if_splits)
  with b obtain s where s: "art_id = JStr s" by (cases art_id) auto
  from b t s obtain sc where sc: "py_get a ''score'' (JInt 0) = Inr sc"
    and rs: "rs = [JObj [(''id'', JStr s), (''score'', sc),
                   (''abstract'', if is_trending_id s then JStr trending_abstract
                                 else (case by_id (JStr s) of None \<Rightarrow> JStr [] | Some v \<Rightarrow> v))]]"
    by (auto dest!: try_bind_Inr)
  from t s have "s \<noteq> []" by simp
  then show ?thesis using i s sc rs r by auto
qed

lemma tag_recommendation_entry:
  "tag_recommendation x = Inr t \<Longrightarrow>
     \<exists>tg sc. py_getitem x ''tag'' = Inr tg \<and> py_getitem x ''score'' = Inr sc
        \<and> t = JObj [(''tag'', tg), (''score'', sc)]"
  by (auto simp: tag_recommendation_def dest!: try_bind_Inr)

lemma demo_process: "process_llm_output demo_llm_out demo_candidates =
  JObj [(''tags'', JArr [JObj [(''tag'', JStr ''ai''), (''score'', JFloat (Fin 5))]]),
        (''articles'',
           JArr [JObj [(''id'', JStr ''c1''), (''score'', JFloat (Fin 4)), (''abstract'', JStr ''Pool abstract'')],
                 JObj [(''id'', JStr ''ghost-42''), (''score'', JFloat (Fin 3)), (''abstract'', JStr [])],
                 JObj [(''id'', JStr ''reddit-ai-0''), (''score'', JFloat (Fin 2)), (''abstract'', JStr trending_abstract)]])]"
  by (simp add: process_llm_output_def process_body_def demo_llm_out_def demo_candidates_def try_bind_def
      tag_recommendation_def article_recommendation_def wildcard_article_id_def candidate_abstract_by_id_def
      dict_get_def dict_get_default_def is_trending_id_def startswith_def Let_def)

lemma demo_long_tags: "recommended_tags (process_llm_output demo_long_out demo_candidates) =
   replicate 20 (JObj [(''tag'', JStr ''ai''), (''score'', JFloat (Fin 5))])"
  by code_simp

lemma demo_long_articles: "length (recommended_articles (process_llm_output demo_long_out demo_candidates)) = 20"
  by code_simp

lemma process_llm_output_Inl:
  "process_body llm_out candidates = Inl e \<Longrightarrow>
     process_llm_output llm_out candidates = JObj [(''tags'', JArr []), (''articles'', JArr [])]"
  by (simp add: process_llm_output_def empty_result_def)

lemma process_llm_output_Inr:
  "process_body llm_out candidates = Inr r \<Longrightarrow> process_llm_output llm_out candidates = r"
  by (simp add: process_llm_output_def)

lemma get_field_JArr:
  "get_field k v = JArr xs \<Longrightarrow> py_get v k dflt = Inr (JArr xs)"
  by (cases v) (auto simp: get_field_def get_field_or_def dict_get_default_def split: option.splits)

lemma list_all2_tags:
  "list_all2 (\<lambda>x y. tag_recommendation x = Inr y) xs ys \<Longrightarrow>
   list_all2 (\<lambda>x t. \<exists>tg sc. py_getitem x ''tag'' = Inr tg \<and> py_getitem x ''score'' = Inr sc
                 \<and> t = JObj [(''tag'', tg), (''score'', sc)]) xs ys"
  by (erule list_all2_mono) (rule tag_recommendation_entry)

lemma list_all2_articles:
  "list_all2 (\<lambda>x y. article_recommendation by_id x = Inr y) xs ys \<Longrightarrow>
   list_all2 (\<lambda>a rs. rs = [] \<or>
        (\<exists>s sc ab. rs = [JObj [(''id'', JStr s), (''score'', sc), (''abstract'', ab)]]
           \<and> py_get a ''id'' JNull = Inr (JStr s) \<and> py_get a ''score'' (JInt 0) = Inr sc)) xs ys"
proof (erule list_all2_mono)
  fix a rs assume h: "article_recommendation by_id a = Inr rs"
  show "rs = [] \<or>
        (\<exists>s sc ab. rs = [JObj [(''id'', JStr s), (''score'', sc), (''abstract'', ab)]]
           \<and> py_get a ''id'' JNull = Inr (JStr s) \<and> py_get a ''score'' (JInt 0) = Inr sc)"
  proof (cases rs)
    case Nil
    then show ?thesis by simp
  next
    case (Cons r rest)
    from article_recommendation_length [OF h] Cons have rest: "rest = []" by simp
    from article_recommendation_entry [OF h, of r] Cons rest show ?thesis by auto
  qed
qed

lemma list_all2_set2: "list_all2 P xs ys \<Longrightarrow> y \<in> set ys \<Longrightarrow> \<exists>x \<in> set xs. P x y"
  by (induction rule: list_all2_induct) auto

text \<open>
  Claim C10. The result holds at most 20 tag entries and at most 20 article entries, and
  every stored tag entry is a dict of exactly the two fields tag and score (the wildcard
  flag is gone). When the reply's tags are a list, the stored tags are either none (an
  exception was caught) or the tag and score of its first 20 elements, in order; when the
  reply's articles are a list, the stored articles are made, in order, from its first 20
  elements, each giving no entry or one entry with its id and score.
\<close>

theorem process_llm_output_first_20:
  "\<exists>ts as. process_llm_output llm_out candidates = JObj [(''tags'', JArr ts), (''articles'', JArr as)]
     \<and> length ts \<le> 20 \<and> length as \<le> 20
     \<and> (\<forall>t \<in> set ts. \<exists>tg sc. t = JObj [(''tag'', tg), (''score'', sc)])
     \<and> (\<forall>tin. get_field ''tags'' llm_out = JArr tin \<longrightarrow>
           ts = [] \<or>
           list_all2 (\<lambda>x t. \<exists>tg sc. py_getitem x ''tag'' = Inr tg \<and> py_getitem x ''score'' = Inr sc
                         \<and> t = JObj [(''tag'', tg), (''score'', sc)]) (take 20 tin) ts)
     \<and> (\<forall>ain. get_field ''articles'' llm_out = JArr ain \<longrightarrow>
           (\<exists>ars. as = concat ars \<and>
              list_all2 (\<lambda>a rs. rs = [] \<or>
                   (\<exists>s sc ab. rs = [JObj [(''id'', JStr s), (''score'', sc), (''abstract'', ab)]]
                      \<and> py_get a ''id'' JNull = Inr (JStr s) \<and> py_get a ''score'' (JInt 0) = Inr sc))
                 (take 20 ain) ars))"
proof (cases "process_body llm_out candidates")
  case (Inl e)
  have c: "\<exists>ars::json list list. [] = concat ars \<and> list_all2 (\<lambda>a rs. rs = [] \<or> R a rs) xs ars"
    for R and xs :: "json list"
    by (rule exI [of _ "map (\<lambda>_. []) xs"]) (simp add: list_all2_conv_all_nth)
  have g: "\<forall>ain. get_field ''articles'' llm_out = JArr ain \<longrightarrow>
           (\<exists>ars. [] = concat ars \<and>
              list_all2 (\<lambda>a rs. rs = [] \<or>
                   (\<exists>s sc ab. rs = [JObj [(''id'', JStr s), (''score'', sc), (''abstract'', ab)]]
                      \<and> py_get a ''id'' JNull = Inr (JStr s) \<and> py_get a ''score'' (JInt 0) = Inr sc))
                 (take 20 ain) ars)"
    by (intro allI impI) (rule c)
  show ?thesis unfolding process_llm_output_Inl [OF Inl]
    apply (rule exI [of _ "[]"], rule exI [of _ "[]"], intro conjI)
         prefer 6
         apply (rule g)
        apply simp_all
    done
next
  case (Inr r)
  from process_body_Inr [OF Inr] obtain tags_field tags_slice all_tags trs by_id
      articles_field articles_slice all_articles ars wids where
    tf: "py_get llm_out ''tags'' (JArr []) = Inr tags_field"
    and tsl: "py_slice_to 20 tags_field = Inr tags_slice"
    and ti: "py_iter tags_slice = Inr all_tags"
    and tm: "map_err tag_recommendation all_tags = Inr trs"
    and af: "py_get llm_out ''articles'' (JArr []) = Inr articles_field"
    and asl: "py_slice_to 20 articles_field = Inr articles_slice"
    and ai: "py_iter articles_slice = Inr all_articles"
    and am: "map_err (article_recommendation by_id) all_articles = Inr ars"
    and r: "r = JObj [(''tags'', JArr trs), (''articles'', JArr (concat ars))]"
    by blast
  have out: "process_llm_output llm_out candidates =
       JObj [(''tags'', JArr trs), (''articles'', JArr (concat ars))]"
    using process_llm_output_Inr [OF Inr] r by simp
  have lt: "length trs \<le> 20"
    using map_err_length [OF tm] slice_iter_length [OF tsl ti] by simp
  have "list_all2 (\<lambda>x y. length y \<le> 1) all_articles ars"
    using map_err_Inr [OF am] by (rule list_all2_mono) (rule article_recommendation_length)
  then have "length (concat ars) \<le> length all_articles" by (rule concat_length_le)
  then have la: "length (concat ars) \<le> 20"
    using slice_iter_length [OF asl ai] by simp
  have shape: "\<forall>t \<in> set trs. \<exists>tg sc. t = JObj [(''tag'', tg), (''score'', sc)]"
  proof
    fix t assume "t \<in> set trs"
    from list_all2_set2 [OF list_all2_tags [OF map_err_Inr [OF tm]] this] obtain x where
      "\<exists>tg sc. py_getitem x ''tag'' = Inr tg \<and> py_getitem x ''score'' = Inr sc
                 \<and> t = JObj [(''tag'', tg), (''score'', sc)]"
      by blast
    then show "\<exists>tg sc. t = JObj [(''tag'', tg), (''score'', sc)]" by blast
  qed
  have tags: "\<forall>tin. get_field ''tags'' llm_out = JArr tin \<longrightarrow>
           trs = [] \<or>
           list_all2 (\<lambda>x t. \<exists>tg sc. py_getitem x ''tag'' = Inr tg \<and> py_getitem x ''score'' = Inr sc
                         \<and> t = JObj [(''tag'', tg), (''score'', sc)]) (take 20 tin) trs"
  proof (intro allI impI)
    fix tin assume "get_field ''tags'' llm_out = JArr tin"
    from get_field_JArr [OF this, of "JArr []"] tf have "tags_field = JArr tin" by simp
    with tsl ti have "all_tags = take 20 tin" by auto
    with list_all2_tags [OF map_err_Inr [OF tm]]
    show "trs = [] \<or>
           list_all2 (\<lambda>x t. \<exists>tg sc. py_getitem x ''tag'' = Inr tg \<and> py_getitem x ''score'' = Inr sc
                         \<and> t = JObj [(''tag'', tg), (''score'', sc)]) (take 20 tin) trs"
      by simp
  qed
  have arts: "\<forall>ain. get_field ''articles'' llm_out = JArr ain \<longrightarrow>
           (\<exists>ars'. concat ars = concat ars' \<and>
              list_all2 (\<lambda>a rs. rs = [] \<or>
                   (\<exists>s sc ab. rs = [JObj [(''id'', JStr s), (''score'', sc), (''abstract'', ab)]]
                      \<and> py_get a ''id'' JNull = Inr (JStr s) \<and> py_get a ''score'' (JInt 0) = Inr sc))
                 (take 20 ain) ars')"
  proof (intro allI impI)
    fix ain assume "get_field ''articles'' llm_out = JArr ain"
    from get_field_JArr [OF this, of "JArr []"] af have "articles_field = JArr ain" by simp
    with asl ai have "all_articles = take 20 ain" by auto
    with list_all2_articles [OF map_err_Inr [OF am]]
    show "\<exists>ars'. concat ars = concat ars' \<and>
              list_all2 (\<lambda>a rs. rs = [] \<or>
                   (\<exists>s sc ab. rs = [JObj [(''id'', JStr s), (''score'', sc), (''abstract'', ab)]]
                      \<and> py_get a ''id'' JNull = Inr (JStr s) \<and> py_get a ''score'' (JInt 0) = Inr sc))
                 (take 20 ain) ars'"
      by blast
  qed
  from out lt la shape tags arts show ?thesis
    by (intro exI [of _ trs] exI [of _ "concat ars"] conjI)
qed

lemma recommended_articles_result:
  "recommended_articles (JObj [(''tags'', JArr ts), (''articles'', JArr as)]) = as"
  by (simp add: recommended_articles_def get_field_def get_field_or_def dict_get_default_def)

lemma recommended_tags_result:
  "recommended_tags (JObj [(''tags'', JArr ts), (''articles'', JArr as)]) = ts"
  by (simp add: recommended_tags_def get_field_def get_field_or_def dict_get_default_def)

lemma article_recommendation_not_str:
  "article_recommendation by_id (JStr c) = Inl AttributeError"
  by (simp add: article_recommendation_def try_bind_def)

lemma all_articles_eq:
  assumes af: "py_get llm_out ''articles'' (JArr []) = Inr articles_field"
    and sl: "py_slice_to 20 articles_field = Inr articles_slice"
    and it: "py_iter articles_slice = Inr all_articles"
    and am: "map_err (article_recommendation by_id) all_articles = Inr ars"
  shows "all_articles = take 20 (recommended_articles llm_out)"
proof -
  from af obtain d where d: "llm_out = JObj d"
    and f: "articles_field = dict_get_default d ''articles'' (JArr [])"
    by (cases llm_out) auto
  show ?thesis
  proof (cases articles_field)
    case (JArr ain)
    with sl it have a: "all_articles = take 20 ain" by auto
    have "recommended_articles llm_out = ain"
      using f JArr d
      by (auto simp: recommended_articles_def get_field_def get_field_or_def dict_get_default_def
               split: option.splits)
    with a show ?thesis by simp
  next
    case (JStr s)
    with sl it have a: "all_articles = map (\<lambda>c. JStr [c]) (take 20 s)" by auto
    have "take 20 s = []"
    proof (cases "take 20 s")
      case Nil then show ?thesis .
    next
      case (Cons c cs)
      with a am show ?thesis by (simp add: article_recommendation_not_str)
    qed
    with a have e: "all_articles = []" by simp
    have "recommended_articles llm_out = []"
      using f JStr d
      by (auto simp: recommended_articles_def get_field_def get_field_or_def dict_get_default_def
               split: option.splits)
    with e show ?thesis by simp
  qed (use sl in auto)
qed

lemma get_field_result_id:
  "get_field ''id'' (JObj [(''id'', i), (''score'', sc), (''abstract'', ab)]) = i"
  by (simp add: get_field_def get_field_or_def dict_get_default_def)

lemma get_field_result_abstract:
  "get_field ''abstract'' (JObj [(''id'', i), (''score'', sc), (''abstract'', ab)]) = ab"
  by (simp add: get_field_def get_field_or_def dict_get_default_def)

lemmas result_simps =
  recommended_articles_result recommended_tags_result get_field_result_id get_field_result_abstract

lemma get_field_py_get: "py_get a k JNull = Inr v \<Longrightarrow> get_field k a = v"
  by (simp add: result_simps get_field_def get_field_or_def)

lemma concat_map_err_member:
  "map_err f xs = Inr yss \<Longrightarrow> r \<in> set (concat yss) \<Longrightarrow> \<exists>x \<in> set xs. \<exists>ys. f x = Inr ys \<and> r \<in> set ys"
proof -
  assume m: "map_err f xs = Inr yss" and r: "r \<in> set (concat yss)"
  from r obtain ys where ys: "ys \<in> set yss" "r \<in> set ys" by (auto simp: result_simps)
  from list_all2_set2 [OF map_err_Inr [OF m] ys(1)] ys(2) show ?thesis by blast
qed

text \<open>
  Claim C1, as amended. Every article id of the result is the id of one of the first 20
  article entries of the LLM output that was passed in. The ids are not compared with the
  candidate pool or with the trending articles.
\<close>

theorem process_llm_output_ids_from_reply:
  "article_ids (recommended_articles (process_llm_output llm_out candidates))
     \<subseteq> article_ids (take 20 (recommended_articles llm_out))"
proof (cases "process_body llm_out candidates")
  case (Inl e)
  show ?thesis unfolding process_llm_output_Inl [OF Inl] by (simp add: result_simps article_ids_def)
next
  case (Inr r)
  from process_body_Inr [OF Inr] obtain by_id
      articles_field articles_slice all_articles ars where
    af: "py_get llm_out ''articles'' (JArr []) = Inr articles_field"
    and asl: "py_slice_to 20 articles_field = Inr articles_slice"
    and ai: "py_iter articles_slice = Inr all_articles"
    and am: "map_err (article_recommendation by_id) all_articles = Inr ars"
    and r: "recommended_articles r = concat ars"
    by (auto simp: result_simps)
  note all = all_articles_eq [OF af asl ai am]
  show ?thesis
  proof
    fix i assume "i \<in> article_ids (recommended_articles (process_llm_output llm_out candidates))"
    then obtain x where x: "x \<in> set (concat ars)" and i: "i = get_field ''id'' x"
      unfolding process_llm_output_Inr [OF Inr] r by (auto simp: result_simps article_ids_def)
    from concat_map_err_member [OF am x] obtain a rs where
      a: "a \<in> set all_articles" and rs: "article_recommendation by_id a = Inr rs" "x \<in> set rs"
      by blast
    from article_recommendation_entry [OF rs] obtain s where
      "py_get a ''id'' JNull = Inr (JStr s)" "get_field ''id'' x = JStr s"
      by (auto simp: result_simps)
    with get_field_py_get [of a "''id''" "JStr s"] have "get_field ''id'' a = i" using i by (simp add: result_simps)
    with a show "i \<in> article_ids (take 20 (recommended_articles llm_out))"
      unfolding all [symmetric] by (auto simp: result_simps article_ids_def)
  qed
qed

text \<open>
  Claim C1 as stated fails: in the sample run the reply names the article
  \<open>ghost-42\<close>, which is neither in the candidate pool nor among the trending articles,
  and the result keeps it.
\<close>

theorem process_llm_output_unoffered_id:
  "\<not> article_ids (recommended_articles (process_llm_output demo_llm_out demo_candidates))
       \<subseteq> article_ids demo_candidates \<union> article_ids demo_trending"
  unfolding demo_process
  by (simp add: result_simps article_ids_def demo_candidates_def demo_trending_def get_field_def get_field_or_def
        dict_get_default_def)

text \<open>
  Claim C9, as amended. Every stored article has a string id. Its abstract is the fixed
  placeholder text when the id starts with one of the four trend prefixes; otherwise it is
  the abstract of the last candidate with that id (the empty string when that candidate has
  no abstract key), and the empty string when no candidate has the id. It is computed from
  the id and the candidate pool alone, so no abstract of the reply is read.
\<close>

theorem process_llm_output_abstracts:
  "\<forall>r \<in> set (recommended_articles (process_llm_output llm_out candidates)).
     \<exists>s. get_field ''id'' r = JStr s \<and>
         get_field ''abstract'' r =
           (if is_trending_id s then JStr trending_abstract
            else (case List.find (\<lambda>c. get_field ''id'' c = JStr s) (rev candidates) of
                    None \<Rightarrow> JStr []
                  | Some c \<Rightarrow> get_field_or ''abstract'' (JStr []) c))"
proof (cases "process_body llm_out candidates")
  case (Inl e)
  show ?thesis unfolding process_llm_output_Inl [OF Inl] by (simp add: result_simps)
next
  case (Inr r)
  from process_body_Inr [OF Inr] obtain by_id all_articles ars where
    cm: "candidate_abstract_by_id candidates = Inr by_id"
    and am: "map_err (article_recommendation by_id) all_articles = Inr ars"
    and r: "recommended_articles r = concat ars"
    by (auto simp: result_simps)
  show ?thesis unfolding process_llm_output_Inr [OF Inr] r
  proof
    fix x assume x: "x \<in> set (concat ars)"
    from concat_map_err_member [OF am x] obtain a rs where
      rs: "article_recommendation by_id a = Inr rs" "x \<in> set rs"
      by blast
    from article_recommendation_entry [OF rs] obtain s sc where
      xe: "x = JObj [(''id'', JStr s), (''score'', sc),
                   (''abstract'', if is_trending_id s then JStr trending_abstract
                                 else (case by_id (JStr s) of None \<Rightarrow> JStr [] | Some v \<Rightarrow> v))]"
      by blast
    show "\<exists>s. get_field ''id'' x = JStr s \<and>
         get_field ''abstract'' x =
           (if is_trending_id s then JStr trending_abstract
            else (case List.find (\<lambda>c. get_field ''id'' c = JStr s) (rev candidates) of
                    None \<Rightarrow> JStr []
                  | Some c \<Rightarrow> get_field_or ''abstract'' (JStr []) c))"
      unfolding xe
      by (rule exI [of _ s])
         (simp add: result_simps candidate_abstract_by_id_lookup [OF cm] split: option.splits)
  qed
qed

text \<open>
  Claim C9 as stated fails for trend-sourced ids: the stored abstract of the trending
  article \<open>reddit-ai-0\<close> is the placeholder text, which is the abstract of no entry
  of the candidate pool or of the trending articles.
\<close>

theorem process_llm_output_trend_abstract:
  "get_field ''id'' (recommended_articles (process_llm_output demo_llm_out demo_candidates) ! 2)
      = JStr ''reddit-ai-0''
   \<and> JStr ''reddit-ai-0'' \<in> article_ids demo_trending
   \<and> get_field ''abstract'' (recommended_articles (process_llm_output demo_llm_out demo_candidates) ! 2)
      = JStr trending_abstract
   \<and> JStr trending_abstract \<notin> set (map (get_field ''abstract'') (demo_candidates @ demo_trending))"
  unfolding demo_process
  by (simp add: result_simps article_ids_def demo_candidates_def demo_trending_def get_field_def get_field_or_def
        dict_get_default_def trending_abstract_def)

text \<open>
  A reply with 21 tags and 21 articles: 20 of each are kept.
\<close>

theorem process_llm_output_first_20_witness:
  "length (recommended_tags demo_long_out) = 21
   \<and> length (recommended_articles demo_long_out) = 21
   \<and> recommended_tags (process_llm_output demo_long_out demo_candidates) =
       replicate 20 (JObj [(''tag'', JStr ''ai''), (''score'', JFloat (Fin 5))])
   \<and> length (recommended_articles (process_llm_output demo_long_out demo_candidates)) = 20
   \<and> (\<exists>tg sc. JObj [(''tag'', JStr ''ai''), (''score'', JFloat (Fin 5))] = JObj [(''tag'', tg), (''score'', sc)])"
proof -
  have l1: "length (recommended_tags demo_long_out) = 21" by code_simp
  have l2: "length (recommended_articles demo_long_out) = 21" by code_simp
  from process_llm_output_first_20 [of demo_long_out demo_candidates] obtain ts as where
    out: "process_llm_output demo_long_out demo_candidates = JObj [(''tags'', JArr ts), (''articles'', JArr as)]"
    and sh: "\<forall>t \<in> set ts. \<exists>tg sc. t = JObj [(''tag'', tg), (''score'', sc)]"
    by blast
  from demo_long_tags have ts: "ts = replicate 20 (JObj [(''tag'', JStr ''ai''), (''score'', JFloat (Fin 5))])"
    unfolding out by (simp add: result_simps)
  from sh have "\<exists>tg sc. JObj [(''tag'', JStr ''ai''), (''score'', JFloat (Fin 5))] = JObj [(''tag'', tg), (''score'', sc)]"
    unfolding ts by (simp add: result_simps)
  with l1 l2 demo_long_tags demo_long_articles show ?thesis by blast
qed

text \<open>
  In the sample run the stored ids are exactly the three ids of the reply.
\<close>

theorem process_llm_output_ids_from_reply_witness:
  "article_ids (recommended_articles (process_llm_output demo_llm_out demo_candidates))
     = {JStr ''c1'', JStr ''ghost-42'', JStr ''reddit-ai-0''}
   \<and> article_ids (take 20 (recommended_articles demo_llm_out))
     = {JStr ''c1'', JStr ''ghost-42'', JStr ''reddit-ai-0''}"
proof -
  have a: "article_ids (take 20 (recommended_articles demo_llm_out))
     = {JStr ''c1'', JStr ''ghost-42'', JStr ''reddit-ai-0''}"
    by (simp add: result_simps article_ids_def recommended_articles_def demo_llm_out_def get_field_def get_field_or_def
          dict_get_default_def)
  have b: "{JStr ''c1'', JStr ''ghost-42'', JStr ''reddit-ai-0''}
        \<subseteq> article_ids (recommended_articles (process_llm_output demo_llm_out demo_candidates))"
    unfolding demo_process by (simp add: result_simps article_ids_def)
  from process_llm_output_ids_from_reply [of demo_llm_out demo_candidates] a b show ?thesis
    by (simp add: result_simps)
qed

text \<open>
  In the sample run the candidate \<open>c1\<close> gets the abstract of the pool.
\<close>

theorem process_llm_output_abstracts_witness:
  "recommended_articles (process_llm_output demo_llm_out demo_candidates) =
     [JObj [(''id'', JStr ''c1''), (''score'', JFloat (Fin 4)), (''abstract'', JStr ''Pool abstract'')],
      JObj [(''id'', JStr ''ghost-42''), (''score'', JFloat (Fin 3)), (''abstract'', JStr [])],
      JObj [(''id'', JStr ''reddit-ai-0''), (''score'', JFloat (Fin 2)), (''abstract'', JStr trending_abstract)]]
   \<and> (\<exists>s. JStr ''c1'' = JStr s \<and>
          JStr ''Pool abstract'' =
           (if is_trending_id s then JStr trending_abstract
            else (case List.find (\<lambda>c. get_field ''id'' c = JStr s) (rev demo_candidates) of
                    None \<Rightarrow> JStr []
                  | Some c \<Rightarrow> get_field_or ''abstract'' (JStr []) c)))"
proof -
  have r: "recommended_articles (process_llm_output demo_llm_out demo_candidates) =
     [JObj [(''id'', JStr ''c1''), (''score'', JFloat (Fin 4)), (''abstract'', JStr ''Pool abstract'')],
      JObj [(''id'', JStr ''ghost-42''), (''score'', JFloat (Fin 3)), (''abstract'', JStr [])],
      JObj [(''id'', JStr ''reddit-ai-0''), (''score'', JFloat (Fin 2)), (''abstract'', JStr trending_abstract)]]"
    unfolding demo_process by (simp add: result_simps)
  from process_llm_output_abstracts [of demo_llm_out demo_candidates]
  have "\<exists>s. JStr ''c1'' = JStr s \<and>
          JStr ''Pool abstract'' =
           (if is_trending_id s then JStr trending_abstract
            else (case List.find (\<lambda>c. get_field ''id'' c = JStr s) (rev demo_candidates) of
                    None \<Rightarrow> JStr []
                  | Some c \<Rightarrow> get_field_or ''abstract'' (JStr []) c))"
    unfolding r by (simp add: result_simps)
  with r show ?thesis by blast
qed

subsection \<open>Calling the model\<close>

lemma failing_client_call: "call_chat_completion failing_client ''p'' 3 \<lparr>calls = 0, sleeps = []\<rparr>
   = (Inl (ExternalError ''service unavailable''), \<lparr>calls = 3, sleeps = [1, 2]\<rparr>)"
  by (simp add: call_chat_completion_def failing_client_def upt_rec)

lemma failing_client_generate: "generate_llm_only_recommendations demo_loads demo_sf failing_client (Inr ''p'') \<lparr>calls = 0, sleeps = []\<rparr>
   = (Inr empty_result, \<lparr>calls = 3, sleeps = [1, 2]\<rparr>)"
  by (simp add: generate_llm_only_recommendations_def generate_body_def failing_client_call)

lemma call_chat_completion_3: "call_chat_completion client prompt 3 tr =
  (case client (calls tr) prompt of
     Inr c \<Rightarrow> (Inr c, tr\<lparr>calls := calls tr + 1\<rparr>)
   | Inl e0 \<Rightarrow>
      (case client (calls tr + 1) prompt of
         Inr c \<Rightarrow> (Inr c, tr\<lparr>calls := calls tr + 2, sleeps := sleeps tr @ [1]\<rparr>)
       | Inl e1 \<Rightarrow>
          (case client (calls tr + 2) prompt of
             Inr c \<Rightarrow> (Inr c, tr\<lparr>calls := calls tr + 3, sleeps := sleeps tr @ [1, 2]\<rparr>)
           | Inl e2 \<Rightarrow> (Inl e2, tr\<lparr>calls := calls tr + 3, sleeps := sleeps tr @ [1, 2]\<rparr>))))"
  by (simp add: call_chat_completion_def upt_rec split: sum.splits)

lemma generate_never_raises:
  "\<exists>r. fst (generate_llm_only_recommendations loads sf client prepared tr) = Inr r"
  by (auto simp: generate_llm_only_recommendations_def split: prod.splits sum.splits)

lemma generate_swallows:
  "isl (fst (call_chat_completion client prompt 3 tr)) \<Longrightarrow>
     generate_llm_only_recommendations loads sf client (Inr prompt) tr
       = (Inr empty_result, snd (call_chat_completion client prompt 3 tr))"
  by (cases "call_chat_completion client prompt 3 tr")
     (auto simp: generate_llm_only_recommendations_def generate_body_def split: sum.splits)

lemma retries_shape:
  "\<exists>n. 1 \<le> n \<and> n \<le> 3
       \<and> calls (snd (call_chat_completion client prompt 3 tr)) = calls tr + n
       \<and> sleeps (snd (call_chat_completion client prompt 3 tr))
           = sleeps tr @ map (\<lambda>attempt. 2 ^ attempt) [0..<n - 1]
       \<and> (\<forall>k < n - 1. isl (client (calls tr + k) prompt))
       \<and> fst (call_chat_completion client prompt 3 tr) = client (calls tr + n - 1) prompt
       \<and> (isl (fst (call_chat_completion client prompt 3 tr)) \<longrightarrow> n = 3)"
proof (cases "client (calls tr) prompt")
  case (Inr c)
  then show ?thesis by (intro exI [of _ 1]) (simp add: call_chat_completion_3)
next
  case e0: (Inl e0)
  show ?thesis
  proof (cases "client (calls tr + 1) prompt")
    case (Inr c)
    with e0 show ?thesis by (intro exI [of _ 2]) (simp add: call_chat_completion_3)
  next
    case e1: (Inl e1)
    have all: "\<forall>k < 2. isl (client (calls tr + k) prompt)"
    proof (intro allI impI)
      fix k :: nat assume "k < 2"
      then have "k = 0 \<or> k = 1" by arith
      with e0 e1 show "isl (client (calls tr + k) prompt)" by auto
    qed
    have u: "[0..<2] = [0, Suc 0]" by (simp add: upt_rec)
    show ?thesis
    proof (cases "client (calls tr + 2) prompt")
      case (Inr c)
      with e0 e1 all show ?thesis by (intro exI [of _ 3]) (simp add: call_chat_completion_3 u)
    next
      case (Inl e2)
      with e0 e1 all show ?thesis by (intro exI [of _ 3]) (simp add: call_chat_completion_3 u)
    qed
  qed
qed

text \<open>
  Claim C2, as amended. \<open>_call_chat_completion\<close> makes between one and three requests;
  before the attempt numbered \<open>k\<close> (from 0) it has slept \<open>2 ^ j\<close> seconds after each
  failed attempt \<open>j < k\<close>; it returns the outcome of its last request, which is an
  exception only when all three requests failed. That exception reaches
  \<open>generate_llm_only_recommendations\<close>, which catches it and returns the empty result:
  the generation step never raises.
\<close>

theorem call_chat_completion_retries:
  "(\<exists>n. 1 \<le> n \<and> n \<le> 3
       \<and> calls (snd (call_chat_completion client prompt 3 tr)) = calls tr + n
       \<and> sleeps (snd (call_chat_completion client prompt 3 tr))
           = sleeps tr @ map (\<lambda>attempt. 2 ^ attempt) [0..<n - 1]
       \<and> (\<forall>k < n - 1. isl (client (calls tr + k) prompt))
       \<and> fst (call_chat_completion client prompt 3 tr) = client (calls tr + n - 1) prompt
       \<and> (isl (fst (call_chat_completion client prompt 3 tr)) \<longrightarrow> n = 3))
   \<and> (isl (fst (call_chat_completion client prompt 3 tr)) \<longrightarrow>
        generate_llm_only_recommendations loads sf client (Inr prompt) tr
          = (Inr empty_result, snd (call_chat_completion client prompt 3 tr)))
   \<and> (\<exists>r. fst (generate_llm_only_recommendations loads sf client prepared tr) = Inr r)"
  using retries_shape [of client prompt tr] generate_swallows [of client prompt tr loads sf]
    generate_never_raises [of loads sf client prepared tr]
  by blast

text \<open>
  With an endpoint that is down: three requests, sleeps of 1 and 2 seconds, the empty
  result.
\<close>

theorem call_chat_completion_retries_witness:
  "isl (fst (call_chat_completion failing_client ''p'' 3 \<lparr>calls = 0, sleeps = []\<rparr>))
   \<and> snd (call_chat_completion failing_client ''p'' 3 \<lparr>calls = 0, sleeps = []\<rparr>)
       = \<lparr>calls = 3, sleeps = [1, 2]\<rparr>
   \<and> generate_llm_only_recommendations demo_loads demo_sf failing_client (Inr ''p'') \<lparr>calls = 0, sleeps = []\<rparr>
       = (Inr empty_result, \<lparr>calls = 3, sleeps = [1, 2]\<rparr>)"
proof -
  have h: "isl (fst (call_chat_completion failing_client ''p'' 3 \<lparr>calls = 0, sleeps = []\<rparr>))"
    by (simp add: failing_client_call)
  have s: "snd (call_chat_completion failing_client ''p'' 3 \<lparr>calls = 0, sleeps = []\<rparr>)
       = \<lparr>calls = 3, sleeps = [1, 2]\<rparr>"
    by (simp add: failing_client_call)
  from call_chat_completion_retries
    [of failing_client "''p''" "\<lparr>calls = 0, sleeps = []\<rparr>" demo_loads demo_sf "Inr ''p''"] h
  have "generate_llm_only_recommendations demo_loads demo_sf failing_client (Inr ''p'') \<lparr>calls = 0, sleeps = []\<rparr>
       = (Inr empty_result, snd (call_chat_completion failing_client ''p'' 3 \<lparr>calls = 0, sleeps = []\<rparr>))"
    by blast
  with h s show ?thesis by simp
qed

text \<open>
  Claim C2 as stated fails in its last part: with an endpoint that is down, the third
  failure is raised by \<open>_call_chat_completion\<close>, and the generation step returns the
  empty result instead of the error.
\<close>

theorem generate_swallows_llm_failure:
  "fst (call_chat_completion failing_client ''p'' 3 \<lparr>calls = 0, sleeps = []\<rparr>)
      = Inl (ExternalError ''service unavailable'')
   \<and> fst (generate_llm_only_recommendations demo_loads demo_sf failing_client (Inr ''p'')
            \<lparr>calls = 0, sleeps = []\<rparr>)
      = Inr (JObj [(''tags'', JArr []), (''articles'', JArr [])])"
  by (simp add: failing_client_call failing_client_generate empty_result_def)

subsection \<open>The skip-update policy\<close>

text \<open>
  For a stored timestamp that parses to a naive datetime the policy is the comparison of
  the claim; a missing, empty or unparsable timestamp never skips; a timestamp that parses
  to a timezone-aware datetime never skips either, because the subtraction from the naive
  \<open>utcnow()\<close> raises.
\<close>

lemma should_skip_update_naive:
  assumes "py_get user_data ''recommendations_updated_at'' JNull = Inr (JStr s)"
    and "s \<noteq> []"
    and "fromisoformat (replace_char CHR ''Z'' ''+00:00'' s) = Some last_update"
    and "utcoffset last_update = None"
  shows "should_skip_update fromisoformat now user_data hours_threshold
           = (now - micros last_update < hours_threshold * 3600000000)"
proof -
  have "((of_int (now - micros last_update) :: rat) / 3600000000 < of_int hours_threshold)
          = ((of_int (now - micros last_update) :: rat) < of_int (hours_threshold * 3600000000))"
    by (simp add: divide_less_eq)
  also have "\<dots> = (now - micros last_update < hours_threshold * 3600000000)"
    by (simp only: of_int_less_iff)
  finally show ?thesis using assms
    by (simp add: should_skip_update_def should_skip_body_def try_bind_def dt_sub_def)
qed

lemma should_skip_update_absent:
  "py_get user_data ''recommendations_updated_at'' JNull = Inr v \<Longrightarrow> \<not> py_bool v \<Longrightarrow>
     should_skip_update fromisoformat now user_data hours_threshold = False"
  by (simp add: should_skip_update_def should_skip_body_def try_bind_def)

lemma should_skip_update_unparsable:
  "py_get user_data ''recommendations_updated_at'' JNull = Inr (JStr s) \<Longrightarrow>
   fromisoformat (replace_char CHR ''Z'' ''+00:00'' s) = None \<Longrightarrow>
     should_skip_update fromisoformat now user_data hours_threshold = False"
  by (simp add: should_skip_update_def should_skip_body_def try_bind_def)

lemma should_skip_update_aware:
  "py_get user_data ''recommendations_updated_at'' JNull = Inr (JStr s) \<Longrightarrow>
   fromisoformat (replace_char CHR ''Z'' ''+00:00'' s) = Some last_update \<Longrightarrow>
   utcoffset last_update = Some off \<Longrightarrow>
     should_skip_update fromisoformat now user_data hours_threshold = False"
  by (simp add: should_skip_update_def should_skip_body_def try_bind_def dt_sub_def)

text \<open>
  Claim C5 at a record whose timestamp ends in \<open>Z\<close>: updated at noon, read at one
  o'clock, threshold 24 hours. The function returns false, although the difference is one
  hour; the same instant written without the suffix is skipped.
\<close>

theorem should_skip_update_utc_suffix:
  "should_skip_update demo_fromisoformat 46800000000
      (JObj [(''id'', JStr ''u1''), (''recommendations_updated_at'', JStr ''2025-01-01T12:00:00Z'')]) 24
     = False
   \<and> should_skip_update demo_fromisoformat 46800000000
      (JObj [(''id'', JStr ''u1''), (''recommendations_updated_at'', JStr ''2025-01-01T12:00:00'')]) 24
     = True"
  by (simp add: should_skip_update_def should_skip_body_def try_bind_def dt_sub_def replace_char_def
        demo_fromisoformat_def dict_get_default_def)

subsection \<open>The candidate pool\<close>

lemma demo_candidates_value:
  "get_candidate_articles demo_query_published demo_query_any (Some [''read-1'']) 400 =
     [JObj [(''id'', JStr ''new-1''), (''title'', JStr ''Bare''), (''abstract'', JStr []), (''tags'', JArr [])],
      JObj [(''id'', JStr ''new-2''), (''title'', JStr ''Nulls''), (''abstract'', JNull), (''tags'', JNull)]]"
  by (simp add: get_candidate_articles_def candidates_body_def query_rows_def try_bind_def
        demo_query_published_def demo_query_any_def candidate_item_def dict_get_default_def
        dict_setdefault_def Let_def)

lemma candidates_body_Inr:
  "candidates_body qp qa ex limit = Inr cs \<Longrightarrow>
     \<exists>rows css. query_rows qp qa limit = Inr rows
        \<and> map_err (candidate_item (case ex of None \<Rightarrow> [] | Some xs \<Rightarrow> xs)) rows = Inr css
        \<and> cs = concat css"
  unfolding candidates_body_def by (auto dest!: try_bind_Inr)

lemma dict_setdefault_present:
  "map_of (dict_setdefault d k v) k = Some (case map_of d k of None \<Rightarrow> v | Some w \<Rightarrow> w)"
  by (simp add: dict_setdefault_def map_add_def split: option.splits)

lemma dict_setdefault_other:
  "k' \<noteq> k \<Longrightarrow> map_of (dict_setdefault d k v) k' = map_of d k'"
  by (simp add: dict_setdefault_def map_add_def split: option.splits)

lemma candidate_item_entry:
  assumes "candidate_item ex it = Inr cs" and "a \<in> set cs"
  shows "\<exists>d. it = JObj d
     \<and> get_field ''id'' a = get_field ''id'' it
     \<and> get_field ''id'' a \<notin> JStr ` set ex
     \<and> py_getitem a ''abstract'' = Inr (dict_get_default d ''abstract'' (JStr []))
     \<and> py_getitem a ''tags'' = Inr (dict_get_default d ''tags'' (JArr []))"
proof -
  from assms obtain d where d: "it = JObj d" by (cases it) (auto simp: candidate_item_def)
  let ?i = "dict_get_default d ''id'' JNull"
  from assms d have ne: "\<not> (case ?i of JStr s \<Rightarrow> s \<in> set ex | _ \<Rightarrow> False)"
    and a: "a = JObj (dict_setdefault (dict_setdefault d ''abstract'' (JStr [])) ''tags'' (JArr []))"
    by (auto simp: candidate_item_def Let_def split: if_splits)
  have id: "get_field ''id'' a = ?i"
    unfolding a
    by (simp add: get_field_def get_field_or_def dict_get_default_def dict_setdefault_other)
  have "?i \<notin> JStr ` set ex" using ne by (auto split: json.splits)
  then show ?thesis
    using d id unfolding a
    by (simp add: get_field_def get_field_or_def dict_get_def dict_get_default_def
          dict_setdefault_other dict_setdefault_present split: option.splits)
qed


text \<open>
  Claim C6, as amended. No returned article has an id in the exclusion set, and every
  returned article comes from a row of the query that was used (the filtered one, or the
  unfiltered one when the filtered one gave no rows), with the same id; it has the keys
  abstract and tags, whose values are the row's own when the row has the key (null
  included) and the empty string and the empty list when it has not.
\<close>

theorem get_candidate_articles_fields:
  "\<forall>a \<in> set (get_candidate_articles query_published query_any exclude_ids limit).
     get_field ''id'' a \<notin> JStr ` set (case exclude_ids of None \<Rightarrow> [] | Some xs \<Rightarrow> xs)
     \<and> (\<exists>rows it d. query_rows query_published query_any limit = Inr rows
           \<and> it \<in> set rows \<and> it = JObj d
           \<and> get_field ''id'' a = get_field ''id'' it
           \<and> py_getitem a ''abstract'' = Inr (dict_get_default d ''abstract'' (JStr []))
           \<and> py_getitem a ''tags'' = Inr (dict_get_default d ''tags'' (JArr [])))"
proof (cases "candidates_body query_published query_any exclude_ids limit")
  case (Inl e)
  then show ?thesis by (simp add: get_candidate_articles_def)
next
  case (Inr cs)
  from candidates_body_Inr [OF Inr] obtain rows css where
    rows: "query_rows query_published query_any limit = Inr rows"
    and m: "map_err (candidate_item (case exclude_ids of None \<Rightarrow> [] | Some xs \<Rightarrow> xs)) rows = Inr css"
    and cs: "cs = concat css"
    by blast
  have out: "get_candidate_articles query_published query_any exclude_ids limit = concat css"
    using Inr cs by (simp add: get_candidate_articles_def)
  show ?thesis unfolding out
  proof
    fix a assume "a \<in> set (concat css)"
    from concat_map_err_member [OF m this] obtain it ys where
      it: "it \<in> set rows"
      and c: "candidate_item (case exclude_ids of None \<Rightarrow> [] | Some xs \<Rightarrow> xs) it = Inr ys" "a \<in> set ys"
      by blast
    from candidate_item_entry [OF c] it rows
    show "get_field ''id'' a \<notin> JStr ` set (case exclude_ids of None \<Rightarrow> [] | Some xs \<Rightarrow> xs)
     \<and> (\<exists>rows it d. query_rows query_published query_any limit = Inr rows
           \<and> it \<in> set rows \<and> it = JObj d
           \<and> get_field ''id'' a = get_field ''id'' it
           \<and> py_getitem a ''abstract'' = Inr (dict_get_default d ''abstract'' (JStr []))
           \<and> py_getitem a ''tags'' = Inr (dict_get_default d ''tags'' (JArr [])))"
      by blast
  qed
qed

text \<open>
  The sample store: the article already read is left out, the bare article gets an empty
  abstract and no tags.
\<close>

theorem get_candidate_articles_fields_witness:
  "get_candidate_articles demo_query_published demo_query_any (Some [''read-1'']) 400 =
     [JObj [(''id'', JStr ''new-1''), (''title'', JStr ''Bare''), (''abstract'', JStr []), (''tags'', JArr [])],
      JObj [(''id'', JStr ''new-2''), (''title'', JStr ''Nulls''), (''abstract'', JNull), (''tags'', JNull)]]
   \<and> JStr ''new-1'' \<notin> JStr ` set [''read-1'']
   \<and> py_getitem (JObj [(''id'', JStr ''new-1''), (''title'', JStr ''Bare''), (''abstract'', JStr []),
                        (''tags'', JArr [])]) ''abstract'' = Inr (JStr [])"
proof -
  let ?a = "JObj [(''id'', JStr ''new-1''), (''title'', JStr ''Bare''), (''abstract'', JStr []), (''tags'', JArr [])]"
  from get_candidate_articles_fields [of demo_query_published demo_query_any "Some [''read-1'']" 400]
  have "get_field ''id'' ?a \<notin> JStr ` set [''read-1'']"
    unfolding demo_candidates_value by simp
  then have "JStr ''new-1'' \<notin> JStr ` set [''read-1'']"
    by (simp add: get_field_def get_field_or_def dict_get_default_def)
  moreover have "py_getitem ?a ''abstract'' = Inr (JStr [])"
    by (simp add: dict_get_def)
  ultimately show ?thesis using demo_candidates_value by blast
qed

text \<open>
  Claim C6 as stated fails for a row whose abstract and tags are stored as null:
  \<open>setdefault\<close> leaves them, and the returned article has a null abstract and null tags.
\<close>

theorem get_candidate_articles_null_fields:
  "get_candidate_articles demo_query_published demo_query_any (Some [''read-1'']) 400 ! 1 =
     JObj [(''id'', JStr ''new-2''), (''title'', JStr ''Nulls''), (''abstract'', JNull), (''tags'', JNull)]
   \<and> get_field ''abstract''
        (get_candidate_articles demo_query_published demo_query_any (Some [''read-1'']) 400 ! 1) = JNull
   \<and> get_field ''tags''
        (get_candidate_articles demo_query_published demo_query_any (Some [''read-1'']) 400 ! 1) = JNull"
  unfolding demo_candidates_value
  by (simp add: get_field_def get_field_or_def dict_get_default_def)

subsection \<open>Trending topics\<close>

lemma demo_topics_value:
  "get_trending_topics demo_feeds 5 =
     [''quantum-computing'', ''mars-mission'', ''election-results'', ''ai-advancements'', ''climate-action'']"
  by (simp add: get_trending_topics_def trending_topics_body_def demo_feeds_def has_news_api_key_def
        get_trending_from_newsapi_def get_trending_from_reddit_def get_trending_from_twitter_def
        current_trending_def py_take_def dict_fromkeys_def)

lemma dict_fromkeys_acc_set: "set (dict_fromkeys_acc seen xs) = set seen \<union> set xs"
  by (induction xs arbitrary: seen) auto

lemma dict_fromkeys_acc_distinct: "distinct seen \<Longrightarrow> distinct (dict_fromkeys_acc seen xs)"
  by (induction xs arbitrary: seen) auto

lemma dict_fromkeys_acc_append:
  "dict_fromkeys_acc seen (xs @ ys) = dict_fromkeys_acc (dict_fromkeys_acc seen xs) ys"
  by (induction xs arbitrary: seen) auto

lemma dict_fromkeys_acc_fresh:
  "distinct xs \<Longrightarrow> set xs \<inter> set seen = {} \<Longrightarrow> dict_fromkeys_acc seen xs = seen @ xs"
  by (induction xs arbitrary: seen) auto

lemma dict_fromkeys_acc_split:
  "dict_fromkeys_acc seen xs = seen @ dict_fromkeys_acc [] (filter (\<lambda>x. x \<notin> set seen) xs)"
proof (induction "length xs" arbitrary: xs seen rule: less_induct)
  case less
  show ?case
  proof (cases xs)
    case Nil
    then show ?thesis by simp
  next
    case (Cons x ys)
    show ?thesis
    proof (cases "x \<in> set seen")
      case True
      have "dict_fromkeys_acc seen ys = seen @ dict_fromkeys_acc [] (filter (\<lambda>x. x \<notin> set seen) ys)"
        by (rule less) (simp add: Cons)
      with True Cons show ?thesis by simp
    next
      case False
      have l: "length (filter (\<lambda>x. x \<notin> set seen) ys) < length xs"
        using Cons by (simp add: le_imp_less_Suc)
      have a: "dict_fromkeys_acc (seen @ [x]) ys
                 = (seen @ [x]) @ dict_fromkeys_acc [] (filter (\<lambda>y. y \<notin> set (seen @ [x])) ys)"
        by (rule less) (simp add: Cons)
      have b: "dict_fromkeys_acc [x] (filter (\<lambda>x. x \<notin> set seen) ys)
                 = [x] @ dict_fromkeys_acc [] (filter (\<lambda>y. y \<notin> set [x]) (filter (\<lambda>x. x \<notin> set seen) ys))"
        by (rule less) (rule l)
      have c: "filter (\<lambda>y. y \<notin> set [x]) (filter (\<lambda>x. x \<notin> set seen) ys)
                 = filter (\<lambda>y. y \<notin> set (seen @ [x])) ys"
        by (simp add: conj_commute)
      show ?thesis using False Cons a b c by simp
    qed
  qed
qed

lemma dict_fromkeys_Nil: "dict_fromkeys [] = []"
  by (simp add: dict_fromkeys_def)

lemma dict_fromkeys_Cons: "dict_fromkeys (x # xs) = x # dict_fromkeys (filter (\<lambda>y. y \<noteq> x) xs)"
  using dict_fromkeys_acc_split [of "[x]" xs] by (simp add: dict_fromkeys_def)

lemma distinct_py_take: "distinct xs \<Longrightarrow> distinct (py_take n xs)"
  by (simp add: py_take_def)

lemma length_py_take: "0 \<le> n \<Longrightarrow> length (py_take n xs) \<le> nat n"
  by (simp add: py_take_def)

lemma get_trending_topics_eq:
  "get_trending_topics feeds limit =
     py_take limit (dict_fromkeys (get_trending_from_newsapi feeds limit
                                   @ get_trending_from_reddit feeds limit
                                   @ get_trending_from_twitter limit))"
  by (simp add: get_trending_topics_def trending_topics_body_def get_trending_from_newsapi_def)

lemma dict_fromkeys_distinct: "distinct (dict_fromkeys xs)"
  by (simp add: dict_fromkeys_def dict_fromkeys_acc_distinct)

lemma dict_fromkeys_fresh_prefix:
  "distinct ts \<Longrightarrow> distinct st \<Longrightarrow>
     dict_fromkeys (ts @ st) = ts @ filter (\<lambda>t. t \<notin> set ts) st"
proof -
  assume ts: "distinct ts" and st: "distinct st"
  have "dict_fromkeys (ts @ st) = dict_fromkeys_acc (dict_fromkeys_acc [] ts) st"
    by (simp add: dict_fromkeys_def dict_fromkeys_acc_append)
  also have "dict_fromkeys_acc [] ts = ts"
    using ts by (simp add: dict_fromkeys_acc_fresh)
  also have "dict_fromkeys_acc ts st = ts @ dict_fromkeys_acc [] (filter (\<lambda>t. t \<notin> set ts) st)"
    by (rule dict_fromkeys_acc_split)
  also have "dict_fromkeys_acc [] (filter (\<lambda>t. t \<notin> set ts) st) = filter (\<lambda>t. t \<notin> set ts) st"
    using st by (simp add: dict_fromkeys_acc_fresh)
  finally show ?thesis .
qed

lemma current_trending_distinct: "distinct current_trending"
  by (simp add: current_trending_def)

lemma get_trending_from_twitter_5: "get_trending_from_twitter 5 = current_trending"
  by (simp add: get_trending_from_twitter_def py_take_def current_trending_def)

lemma news_down_reddit_three:
  assumes k: "has_news_api_key feeds" and n: "isl (newsapi_topics feeds 5)"
    and r: "reddit_topics feeds 5 = Inr ts" and l: "length ts = 3" and d: "distinct ts"
  shows "get_trending_topics feeds 5 = ts @ take 2 (filter (\<lambda>t. t \<notin> set ts) current_trending)"
proof -
  have news: "get_trending_from_newsapi feeds 5 = []"
    using k n by (cases "newsapi_topics feeds 5") (simp_all add: get_trending_from_newsapi_def)
  have reddit: "get_trending_from_reddit feeds 5 = ts"
    using r l by (simp add: get_trending_from_reddit_def py_take_def)
  have "get_trending_topics feeds 5 = py_take 5 (dict_fromkeys (ts @ current_trending))"
    unfolding get_trending_topics_eq news reddit get_trending_from_twitter_5 by simp
  also have "\<dots> = py_take 5 (ts @ filter (\<lambda>t. t \<notin> set ts) current_trending)"
    using d current_trending_distinct by (simp add: dict_fromkeys_fresh_prefix)
  also have "\<dots> = ts @ take 2 (filter (\<lambda>t. t \<notin> set ts) current_trending)"
    using l by (simp add: py_take_def)
  finally show ?thesis .
qed

text \<open>
  Claim C8, as amended. The result is the concatenation of the news topics, the social
  topics and the static list, in this order, with every topic kept at its first place
  only, cut to the limit: it has no duplicates and, for a limit that is not negative, at
  most that many topics. The block never raises, so the hardcoded fallback list is not
  used. When the news feed raises and the social feed returns three different topics, a
  call with limit 5 returns these three followed by the first two topics of the static
  list that are not among them.
\<close>

theorem get_trending_topics_merge:
  "get_trending_topics feeds limit =
     py_take limit (dict_fromkeys (get_trending_from_newsapi feeds limit
                                   @ get_trending_from_reddit feeds limit
                                   @ get_trending_from_twitter limit))
   \<and> dict_fromkeys ([] :: string list) = []
   \<and> (\<forall>x xs. dict_fromkeys (x # xs :: string list) = x # dict_fromkeys (filter (\<lambda>y. y \<noteq> x) xs))
   \<and> distinct (get_trending_topics feeds limit)
   \<and> (0 \<le> limit \<longrightarrow> length (get_trending_topics feeds limit) \<le> nat limit)
   \<and> (\<exists>unique_topics. trending_topics_body feeds limit = Inr unique_topics)
   \<and> (has_news_api_key feeds \<and> isl (newsapi_topics feeds 5) \<and> reddit_topics feeds 5 = Inr ts
        \<and> length ts = 3 \<and> distinct ts
       \<longrightarrow> get_trending_topics feeds 5 = ts @ take 2 (filter (\<lambda>t. t \<notin> set ts) current_trending))"
proof -
  have d: "distinct (get_trending_topics feeds limit)"
    unfolding get_trending_topics_eq by (rule distinct_py_take) (rule dict_fromkeys_distinct)
  have l: "0 \<le> limit \<longrightarrow> length (get_trending_topics feeds limit) \<le> nat limit"
    unfolding get_trending_topics_eq by (simp add: length_py_take)
  have b: "\<exists>unique_topics. trending_topics_body feeds limit = Inr unique_topics"
    by (simp add: trending_topics_body_def)
  show ?thesis
    using get_trending_topics_eq [of feeds limit] dict_fromkeys_Nil dict_fromkeys_Cons d l b
      news_down_reddit_three [of feeds ts]
    by blast
qed

text \<open>
  The scenario at the sample feeds.
\<close>

theorem get_trending_topics_merge_witness:
  "has_news_api_key demo_feeds \<and> isl (newsapi_topics demo_feeds 5)
   \<and> reddit_topics demo_feeds 5 = Inr [''quantum-computing'', ''mars-mission'', ''election-results'']
   \<and> get_trending_topics demo_feeds 5 =
       [''quantum-computing'', ''mars-mission'', ''election-results'', ''ai-advancements'', ''climate-action'']
   \<and> length (get_trending_topics demo_feeds 5) \<le> nat 5"
proof -
  have h: "has_news_api_key demo_feeds" "isl (newsapi_topics demo_feeds 5)"
    "reddit_topics demo_feeds 5 = Inr [''quantum-computing'', ''mars-mission'', ''election-results'']"
    by (simp_all add: demo_feeds_def has_news_api_key_def)
  note T = get_trending_topics_merge
    [of demo_feeds 5 "[''quantum-computing'', ''mars-mission'', ''election-results'']"]
  have h2: "length [''quantum-computing'', ''mars-mission'', ''election-results''] = 3"
    "distinct [''quantum-computing'', ''mars-mission'', ''election-results'']"
    by simp_all
  from T h h2 have "get_trending_topics demo_feeds 5 =
      [''quantum-computing'', ''mars-mission'', ''election-results'']
      @ take 2 (filter (\<lambda>t. t \<notin> set [''quantum-computing'', ''mars-mission'', ''election-results''])
                  current_trending)"
    by blast
  then have v: "get_trending_topics demo_feeds 5 =
       [''quantum-computing'', ''mars-mission'', ''election-results'', ''ai-advancements'', ''climate-action'']"
    by (simp add: current_trending_def)
  have z: "(0::int) \<le> 5" by simp
  from T z have "length (get_trending_topics demo_feeds 5) \<le> nat 5" by blast
  with h v show ?thesis by blast
qed

text \<open>
  Claim C8 as stated fails in its scenario: the news feed raises, the social feed returns
  three topics, and the call with limit 5 returns five topics, the last two from the static
  list.
\<close>

theorem get_trending_topics_static_appended:
  "get_trending_from_newsapi demo_feeds 5 = []
   \<and> get_trending_from_reddit demo_feeds 5 = [''quantum-computing'', ''mars-mission'', ''election-results'']
   \<and> get_trending_topics demo_feeds 5 =
       [''quantum-computing'', ''mars-mission'', ''election-results'', ''ai-advancements'', ''climate-action'']
   \<and> get_trending_topics demo_feeds 5 \<noteq> [''quantum-computing'', ''mars-mission'', ''election-results'']"
  unfolding demo_topics_value
  by (simp add: demo_feeds_def has_news_api_key_def get_trending_from_newsapi_def
        get_trending_from_reddit_def py_take_def)

subsection \<open>The cached batch lookup\<close>










end
